theory Spec2Isabelle
  imports Main "HOL-Library.AList"
begin

section \<open>JavaScript strings and the character classes of the regular expressions\<close>

text \<open>
  A JavaScript string is a sequence of UTF-16 code units: \<^verbatim>\<open>length\<close>, \<^verbatim>\<open>trim\<close>,
  \<^verbatim>\<open>startsWith\<close> and every regular expression without the \<^verbatim>\<open>u\<close> flag work on
  code units, and a character outside the Basic Multilingual Plane is a pair of
  surrogates. A code unit is written as a natural number (it is below 65536); the
  functions below only compare code units with constants, so nothing wraps around.
  An ideograph of the source is written by its code unit, \<^verbatim>\<open>0x4E2D\<close> for U+4E2D.
\<close>

type_synonym jsstring = "nat list"

definition ascii :: "string \<Rightarrow> jsstring" where
  "ascii s = map of_char s"

text \<open>The class \<^verbatim>\<open>[\u4e00-\u9fff]\<close> of the ideographs.\<close>

definition isChinese :: "nat \<Rightarrow> bool" where
  "isChinese c \<longleftrightarrow> 0x4E00 \<le> c \<and> c \<le> 0x9FFF"

text \<open>
  The class \<^verbatim>\<open>\s\<close>, which is also what \<^verbatim>\<open>trim\<close> removes: the WhiteSpace and
  LineTerminator code points of ECMAScript.
\<close>

definition isSpace :: "nat \<Rightarrow> bool" where
  "isSpace c \<longleftrightarrow> (9 \<le> c \<and> c \<le> 13) \<or> c = 0x20 \<or> c = 0xA0 \<or> c = 0x1680 \<or>
     (0x2000 \<le> c \<and> c \<le> 0x200A) \<or> c = 0x2028 \<or> c = 0x2029 \<or> c = 0x202F \<or>
     c = 0x205F \<or> c = 0x3000 \<or> c = 0xFEFF"

text \<open>The classes \<^verbatim>\<open>\d\<close>, \<^verbatim>\<open>[a-zA-Z]\<close>, \<^verbatim>\<open>\w\<close> and \<^verbatim>\<open>[\u0000-\u007F]\<close>.\<close>

definition isDigit :: "nat \<Rightarrow> bool" where
  "isDigit c \<longleftrightarrow> 0x30 \<le> c \<and> c \<le> 0x39"

definition isLatinLetter :: "nat \<Rightarrow> bool" where
  "isLatinLetter c \<longleftrightarrow> (0x61 \<le> c \<and> c \<le> 0x7A) \<or> (0x41 \<le> c \<and> c \<le> 0x5A)"

definition isWordChar :: "nat \<Rightarrow> bool" where
  "isWordChar c \<longleftrightarrow> isLatinLetter c \<or> isDigit c \<or> c = 0x5F"

definition isAscii :: "nat \<Rightarrow> bool" where
  "isAscii c \<longleftrightarrow> c \<le> 0x7F"

text \<open>
  The two icon classes of \<^verbatim>\<open>cleanChineseText\<close>. Their regular expressions have no
  \<^verbatim>\<open>u\<close> flag, so an icon outside the Basic Multilingual Plane contributes its two
  surrogates as two separate members of the class, and the variation selector U+FE0F
  that follows some icons is a member too.
\<close>

definition iconClassA :: "nat \<Rightarrow> bool" where
  "iconClassA c \<longleftrightarrow> c \<in> set [0x2705, 0x274C, 0x23ED, 0xFE0F, 0xD83D, 0xDD0D, 0xDCC2, 0xDCC1,
     0xDCC4, 0xD83C, 0xDF10, 0xDCE1, 0xDCDD, 0x2728, 0xDE80, 0x26A0, 0xDCA1, 0xDFAF, 0xDCCA,
     0xDEE0]"

definition iconClassB :: "nat \<Rightarrow> bool" where
  "iconClassB c \<longleftrightarrow> c \<in> set [0x25BA, 0x25B6, 0xFE0F, 0x2B50, 0xD83C, 0xDF89, 0xD83D, 0xDD27,
     0xDCC8, 0xDCC9, 0xDCBB, 0xDDA5, 0xDCF1, 0x231A]"

text \<open>The class of ASCII punctuation, from \<^verbatim>\<open>!\<close> to \<^verbatim>\<open>~\<close> as the source lists it.\<close>

definition asciiSymbolClass :: "nat \<Rightarrow> bool" where
  "asciiSymbolClass c \<longleftrightarrow> c \<in> set [0x21, 0x40, 0x23, 0x24, 0x25, 0x5E, 0x26, 0x2A, 0x28, 0x29,
     0x5F, 0x2B, 0x2D, 0x3D, 0x5B, 0x5D, 0x7B, 0x7D, 0x7C, 0x3B, 0x27, 0x3A, 0x22, 0x2C, 0x2E,
     0x2F, 0x3C, 0x3E, 0x3F, 0x60, 0x7E]"

text \<open>
  The class of Chinese punctuation marks, the same in every expression of
  \<^verbatim>\<open>cleanChineseText\<close>. The quotation marks the source lists in it are the ASCII ones.
\<close>

definition chinesePunctuation :: "nat \<Rightarrow> bool" where
  "chinesePunctuation c \<longleftrightarrow> c \<in> set [0xFF0C, 0x3002, 0xFF1F, 0xFF01, 0xFF1B, 0xFF1A, 0x3001,
     0xB7, 0x22, 0x27, 0xFF08, 0xFF09, 0x3010, 0x3011, 0x300A, 0x300B, 0x3008, 0x3009, 0x300C,
     0x300D, 0x300E, 0x300F, 0x2026, 0x2014, 0xFF0D, 0x3014, 0x3015, 0x3016, 0x3017, 0xFF5B,
     0xFF5D, 0xFF3B, 0xFF3D]"

subsection \<open>Code points\<close>

definition isHighSurrogate :: "nat \<Rightarrow> bool" where
  "isHighSurrogate c \<longleftrightarrow> 0xD800 \<le> c \<and> c \<le> 0xDBFF"

definition isLowSurrogate :: "nat \<Rightarrow> bool" where
  "isLowSurrogate c \<longleftrightarrow> 0xDC00 \<le> c \<and> c \<le> 0xDFFF"

definition codePoint :: "nat \<Rightarrow> nat \<Rightarrow> nat" where
  "codePoint h l = 0x10000 + (h - 0xD800) * 0x400 + (l - 0xDC00)"

text \<open>
  What a regular expression with the \<^verbatim>\<open>u\<close> flag reads: a high surrogate followed by
  a low one is one code point, any other code unit is a code point by itself.
\<close>

fun codePoints :: "jsstring \<Rightarrow> nat list" where
  "codePoints (h # l # rest) =
     (if isHighSurrogate h \<and> isLowSurrogate l then codePoint h l # codePoints rest
      else h # codePoints (l # rest))"
| "codePoints [c] = [c]"
| "codePoints [] = []"

text \<open>
  The General_Category Punctuation of Unicode, which \<^verbatim>\<open>\p{P}\<close> denotes, as ranges
  of code points (Unicode 14). The table belongs to the regular expression engine.
\<close>

definition punctuationRanges :: "(nat \<times> nat) list" where
  "punctuationRanges = [
  (0x21, 0x23), (0x25, 0x2A), (0x2C, 0x2F), (0x3A, 0x3B), (0x3F, 0x40), (0x5B, 0x5D),
   (0x5F, 0x5F), (0x7B, 0x7B), (0x7D, 0x7D), (0xA1, 0xA1), (0xA7, 0xA7), (0xAB, 0xAB),
   (0xB6, 0xB7), (0xBB, 0xBB), (0xBF, 0xBF), (0x37E, 0x37E), (0x387, 0x387), (0x55A, 0x55F),
   (0x589, 0x58A), (0x5BE, 0x5BE), (0x5C0, 0x5C0), (0x5C3, 0x5C3), (0x5C6, 0x5C6),
   (0x5F3, 0x5F4), (0x609, 0x60A), (0x60C, 0x60D), (0x61B, 0x61B), (0x61D, 0x61F),
   (0x66A, 0x66D), (0x6D4, 0x6D4), (0x700, 0x70D), (0x7F7, 0x7F9), (0x830, 0x83E),
   (0x85E, 0x85E), (0x964, 0x965), (0x970, 0x970), (0x9FD, 0x9FD), (0xA76, 0xA76),
   (0xAF0, 0xAF0), (0xC77, 0xC77), (0xC84, 0xC84), (0xDF4, 0xDF4), (0xE4F, 0xE4F),
   (0xE5A, 0xE5B), (0xF04, 0xF12), (0xF14, 0xF14), (0xF3A, 0xF3D), (0xF85, 0xF85),
   (0xFD0, 0xFD4), (0xFD9, 0xFDA), (0x104A, 0x104F), (0x10FB, 0x10FB), (0x1360, 0x1368),
   (0x1400, 0x1400), (0x166E, 0x166E), (0x169B, 0x169C), (0x16EB, 0x16ED), (0x1735, 0x1736),
   (0x17D4, 0x17D6), (0x17D8, 0x17DA), (0x1800, 0x180A), (0x1944, 0x1945), (0x1A1E, 0x1A1F),
   (0x1AA0, 0x1AA6), (0x1AA8, 0x1AAD), (0x1B5A, 0x1B60), (0x1B7D, 0x1B7E), (0x1BFC, 0x1BFF),
   (0x1C3B, 0x1C3F), (0x1C7E, 0x1C7F), (0x1CC0, 0x1CC7), (0x1CD3, 0x1CD3), (0x2010, 0x2027),
   (0x2030, 0x2043), (0x2045, 0x2051), (0x2053, 0x205E), (0x207D, 0x207E), (0x208D, 0x208E),
   (0x2308, 0x230B), (0x2329, 0x232A), (0x2768, 0x2775), (0x27C5, 0x27C6), (0x27E6, 0x27EF),
   (0x2983, 0x2998), (0x29D8, 0x29DB), (0x29FC, 0x29FD), (0x2CF9, 0x2CFC), (0x2CFE, 0x2CFF),
   (0x2D70, 0x2D70), (0x2E00, 0x2E2E), (0x2E30, 0x2E4F), (0x2E52, 0x2E5D), (0x3001, 0x3003),
   (0x3008, 0x3011), (0x3014, 0x301F), (0x3030, 0x3030), (0x303D, 0x303D), (0x30A0, 0x30A0),
   (0x30FB, 0x30FB), (0xA4FE, 0xA4FF), (0xA60D, 0xA60F), (0xA673, 0xA673), (0xA67E, 0xA67E),
   (0xA6F2, 0xA6F7), (0xA874, 0xA877), (0xA8CE, 0xA8CF), (0xA8F8, 0xA8FA), (0xA8FC, 0xA8FC),
   (0xA92E, 0xA92F), (0xA95F, 0xA95F), (0xA9C1, 0xA9CD), (0xA9DE, 0xA9DF), (0xAA5C, 0xAA5F),
   (0xAADE, 0xAADF), (0xAAF0, 0xAAF1), (0xABEB, 0xABEB), (0xFD3E, 0xFD3F), (0xFE10, 0xFE19),
   (0xFE30, 0xFE52), (0xFE54, 0xFE61), (0xFE63, 0xFE63), (0xFE68, 0xFE68), (0xFE6A, 0xFE6B),
   (0xFF01, 0xFF03), (0xFF05, 0xFF0A), (0xFF0C, 0xFF0F), (0xFF1A, 0xFF1B), (0xFF1F, 0xFF20),
   (0xFF3B, 0xFF3D), (0xFF3F, 0xFF3F), (0xFF5B, 0xFF5B), (0xFF5D, 0xFF5D), (0xFF5F, 0xFF65),
   (0x10100, 0x10102), (0x1039F, 0x1039F), (0x103D0, 0x103D0), (0x1056F, 0x1056F),
   (0x10857, 0x10857), (0x1091F, 0x1091F), (0x1093F, 0x1093F), (0x10A50, 0x10A58),
   (0x10A7F, 0x10A7F), (0x10AF0, 0x10AF6), (0x10B39, 0x10B3F), (0x10B99, 0x10B9C),
   (0x10EAD, 0x10EAD), (0x10F55, 0x10F59), (0x10F86, 0x10F89), (0x11047, 0x1104D),
   (0x110BB, 0x110BC), (0x110BE, 0x110C1), (0x11140, 0x11143), (0x11174, 0x11175),
   (0x111C5, 0x111C8), (0x111CD, 0x111CD), (0x111DB, 0x111DB), (0x111DD, 0x111DF),
   (0x11238, 0x1123D), (0x112A9, 0x112A9), (0x1144B, 0x1144F), (0x1145A, 0x1145B),
   (0x1145D, 0x1145D), (0x114C6, 0x114C6), (0x115C1, 0x115D7), (0x11641, 0x11643),
   (0x11660, 0x1166C), (0x116B9, 0x116B9), (0x1173C, 0x1173E), (0x1183B, 0x1183B),
   (0x11944, 0x11946), (0x119E2, 0x119E2), (0x11A3F, 0x11A46), (0x11A9A, 0x11A9C),
   (0x11A9E, 0x11AA2), (0x11C41, 0x11C45), (0x11C70, 0x11C71), (0x11EF7, 0x11EF8),
   (0x11FFF, 0x11FFF), (0x12470, 0x12474), (0x12FF1, 0x12FF2), (0x16A6E, 0x16A6F),
   (0x16AF5, 0x16AF5), (0x16B37, 0x16B3B), (0x16B44, 0x16B44), (0x16E97, 0x16E9A),
   (0x16FE2, 0x16FE2), (0x1BC9F, 0x1BC9F), (0x1DA87, 0x1DA8B), (0x1E95E, 0x1E95F)]"

definition unicodePunctuation :: "nat \<Rightarrow> bool" where
  "unicodePunctuation c \<longleftrightarrow> list_ex (\<lambda>(lo, hi). lo \<le> c \<and> c \<le> hi) punctuationRanges"

subsection \<open>String operations\<close>

definition trim :: "jsstring \<Rightarrow> jsstring" where
  "trim s = rev (dropWhile isSpace (rev (dropWhile isSpace s)))"

text \<open>\<^verbatim>\<open>s.replace(/[class]/g, r)\<close>: every member of the class becomes \<open>r\<close>.\<close>

definition replaceClass :: "(nat \<Rightarrow> bool) \<Rightarrow> nat \<Rightarrow> jsstring \<Rightarrow> jsstring" where
  "replaceClass cls r s = map (\<lambda>c. if cls c then r else c) s"

text \<open>\<^verbatim>\<open>s.replace(/[class]+/g, '')\<close>: every member of the class is removed.\<close>

definition removeClass :: "(nat \<Rightarrow> bool) \<Rightarrow> jsstring \<Rightarrow> jsstring" where
  "removeClass cls s = filter (\<lambda>c. \<not> cls c) s"

text \<open>\<^verbatim>\<open>s.replace(/^[class]+/, '')\<close> and \<^verbatim>\<open>s.replace(/[class]+$/, '')\<close>.\<close>

definition stripLeading :: "(nat \<Rightarrow> bool) \<Rightarrow> jsstring \<Rightarrow> jsstring" where
  "stripLeading cls s = dropWhile cls s"

definition stripTrailing :: "(nat \<Rightarrow> bool) \<Rightarrow> jsstring \<Rightarrow> jsstring" where
  "stripTrailing cls s = rev (dropWhile cls (rev s))"

text \<open>\<^verbatim>\<open>/^[class]/.test(s)\<close> and \<^verbatim>\<open>/[class]$/.test(s)\<close>.\<close>

definition startsWithClass :: "(nat \<Rightarrow> bool) \<Rightarrow> jsstring \<Rightarrow> bool" where
  "startsWithClass cls s = (case s of [] \<Rightarrow> False | c # _ \<Rightarrow> cls c)"

definition endsWithClass :: "(nat \<Rightarrow> bool) \<Rightarrow> jsstring \<Rightarrow> bool" where
  "endsWithClass cls s = startsWithClass cls (rev s)"

text \<open>
  \<^verbatim>\<open>s.split(/[class]+/g)\<close>: the pieces between the maximal runs of members of the
  class. A run at the start or at the end leaves an empty piece there, and a string
  without a run is its only piece.
\<close>

function splitRuns :: "(nat \<Rightarrow> bool) \<Rightarrow> jsstring \<Rightarrow> jsstring list" where
  "splitRuns cls s =
     (case dropWhile (\<lambda>c. \<not> cls c) s of
        [] \<Rightarrow> [s]
      | _ # rest \<Rightarrow> takeWhile (\<lambda>c. \<not> cls c) s # splitRuns cls (dropWhile cls rest))"
  by pat_completeness auto
termination
proof (relation "measure (\<lambda>(cls, s). length s)")
  show "wf (measure (\<lambda>(cls, s). length s))" by simp
next
  fix cls :: "nat \<Rightarrow> bool" and s :: jsstring and x rest
  assume "dropWhile (\<lambda>c. \<not> cls c) s = x # rest"
  then have "length s \<ge> Suc (length rest)"
    by (metis length_dropWhile_le length_Cons)
  moreover have "length (dropWhile cls rest) \<le> length rest"
    by (rule length_dropWhile_le)
  ultimately show "((cls, dropWhile cls rest), (cls, s)) \<in> measure (\<lambda>(cls, s). length s)"
    by simp
qed

declare splitRuns.simps [simp del]

section \<open>The cleaner\<close>

text \<open>
  The first replacement of \<^verbatim>\<open>cleanChineseText\<close> has the \<^verbatim>\<open>u\<close> flag: it reads code
  points, and replaces each one in the six pictograph ranges by a space.
\<close>

definition emojiRange :: "nat \<Rightarrow> bool" where
  "emojiRange c \<longleftrightarrow> (0x1F600 \<le> c \<and> c \<le> 0x1F64F) \<or> (0x1F300 \<le> c \<and> c \<le> 0x1F5FF) \<or>
     (0x1F680 \<le> c \<and> c \<le> 0x1F6FF) \<or> (0x1F1E0 \<le> c \<and> c \<le> 0x1F1FF) \<or>
     (0x2600 \<le> c \<and> c \<le> 0x26FF) \<or> (0x2700 \<le> c \<and> c \<le> 0x27BF)"

fun replaceEmoji :: "jsstring \<Rightarrow> jsstring" where
  "replaceEmoji (h # l # rest) =
     (if isHighSurrogate h \<and> isLowSurrogate l
      then (if emojiRange (codePoint h l) then 0x20 # replaceEmoji rest
            else h # l # replaceEmoji rest)
      else (if emojiRange h then 0x20 else h) # replaceEmoji (l # rest))"
| "replaceEmoji [c] = [if emojiRange c then 0x20 else c]"
| "replaceEmoji [] = []"

definition containsChinese :: "jsstring \<Rightarrow> bool" where
  "containsChinese text = list_ex isChinese text"

text \<open>The four replacements that turn symbols into spaces.\<close>

definition stripSymbols :: "jsstring \<Rightarrow> jsstring" where
  "stripSymbols text =
     replaceClass asciiSymbolClass 0x20
       (replaceClass iconClassB 0x20 (replaceClass iconClassA 0x20 (replaceEmoji text)))"

text \<open>The two replacements that remove the Chinese punctuation at both ends.\<close>

definition trimPunctuation :: "jsstring \<Rightarrow> jsstring" where
  "trimPunctuation s = stripTrailing chinesePunctuation (stripLeading chinesePunctuation s)"

text \<open>The second \<^verbatim>\<open>map\<close> over the segments.\<close>

definition cleanSegment :: "jsstring \<Rightarrow> jsstring" where
  "cleanSegment segment =
     trim (stripTrailing chinesePunctuation (stripLeading chinesePunctuation
       (removeClass isAscii
         (removeClass (\<lambda>c. isLatinLetter c \<or> isDigit c \<or> isSpace c) segment))))"

text \<open>The last \<^verbatim>\<open>filter\<close> over the segments.\<close>

definition keepSegment :: "jsstring \<Rightarrow> bool" where
  "keepSegment segment \<longleftrightarrow> segment \<noteq> [] \<and> length segment > 0 \<and> containsChinese segment \<and>
     length segment \<le> 20 \<and> \<not> startsWithClass chinesePunctuation segment \<and>
     \<not> endsWithClass chinesePunctuation segment"

text \<open>\<^verbatim>\<open>ASTChineseExtractor.cleanChineseText\<close>, the method of the tree-based extractor.\<close>

definition ASTChineseExtractor_cleanChineseText :: "jsstring \<Rightarrow> jsstring list" where
  "ASTChineseExtractor_cleanChineseText text =
     (if text = [] then []
      else let cleanedText = trimPunctuation (stripSymbols text) in
        if cleanedText = [] \<or> \<not> containsChinese cleanedText then []
        else let segments = splitRuns chinesePunctuation cleanedText in
          filter keepSegment
            (map cleanSegment
              (filter (\<lambda>segment. segment \<noteq> [] \<and> containsChinese segment)
                (map trim segments))))"

text \<open>
  \<^verbatim>\<open>cleanChineseText\<close>, the function of the pattern-based extractor: the same steps,
  written a second time in the source.
\<close>

definition cleanChineseText :: "jsstring \<Rightarrow> jsstring list" where
  "cleanChineseText text =
     (if text = [] then []
      else let cleanedText = trimPunctuation (stripSymbols text) in
        if cleanedText = [] \<or> \<not> containsChinese cleanedText then []
        else let segments = splitRuns chinesePunctuation cleanedText in
          filter keepSegment
            (map cleanSegment
              (filter (\<lambda>segment. segment \<noteq> [] \<and> containsChinese segment)
                (map trim segments))))"

section \<open>The classifier\<close>

text \<open>The five expressions of \<^verbatim>\<open>codePatterns\<close>, in the order of the source.\<close>

text \<open>\<^verbatim>\<open>/[{}[\]();]/\<close>: a brace, a bracket, a parenthesis or a semicolon.\<close>

definition hasCodeBracket :: "jsstring \<Rightarrow> bool" where
  "hasCodeBracket text = list_ex (\<lambda>c. c \<in> set [0x7B, 0x7D, 0x5B, 0x5D, 0x28, 0x29, 0x3B]) text"

fun containsSubstring :: "jsstring \<Rightarrow> jsstring \<Rightarrow> bool" where
  "containsSubstring k [] = (k = [])"
| "containsSubstring k (c # cs) = (take (length k) (c # cs) = k \<or> containsSubstring k cs)"

text \<open>\<^verbatim>\<open>/\\n|\\t/\<close>: a backslash followed by the letter n or the letter t.\<close>

definition hasEscape :: "jsstring \<Rightarrow> bool" where
  "hasEscape text \<longleftrightarrow> containsSubstring [0x5C, 0x6E] text \<or> containsSubstring [0x5C, 0x74] text"

text \<open>\<^verbatim>\<open>/^\s*\/\//\<close>: a line comment after optional white space.\<close>

definition startsWithComment :: "jsstring \<Rightarrow> bool" where
  "startsWithComment text \<longleftrightarrow> take 2 (dropWhile isSpace text) = [0x2F, 0x2F]"

text \<open>
  \<^verbatim>\<open>/interface|class|function|const|let|var|export|import/i\<close>. Without the
  \<^verbatim>\<open>u\<close> flag, ignoring case compares the upper-case forms of single code units, and
  a code unit from 128 on is never identified with an ASCII one: only the ASCII letters
  match the letters of the keywords.
\<close>

definition canonicalize :: "nat \<Rightarrow> nat" where
  "canonicalize c = (if 0x61 \<le> c \<and> c \<le> 0x7A then c - 0x20 else c)"

definition codeKeywords :: "jsstring list" where
  "codeKeywords = map ascii [''interface'', ''class'', ''function'', ''const'', ''let'', ''var'',
     ''export'', ''import'']"

definition hasKeyword :: "jsstring \<Rightarrow> bool" where
  "hasKeyword text =
     list_ex (\<lambda>k. containsSubstring (map canonicalize k) (map canonicalize text)) codeKeywords"

text \<open>
  \<^verbatim>\<open>/\w+\s*:\s*\w+/\<close>: word characters, a colon and a word character, with optional
  white space around the colon. From a word character on, the expression can only
  succeed by taking the whole run of word characters and the whole run of white space.
\<close>

definition colonThenWord :: "jsstring \<Rightarrow> bool" where
  "colonThenWord s =
     (case dropWhile isSpace (dropWhile isWordChar s) of
        [] \<Rightarrow> False
      | c # rest \<Rightarrow> c = 0x3A \<and> startsWithClass isWordChar (dropWhile isSpace rest))"

fun hasPropertyPattern :: "jsstring \<Rightarrow> bool" where
  "hasPropertyPattern [] = False"
| "hasPropertyPattern (c # cs) = ((isWordChar c \<and> colonThenWord cs) \<or> hasPropertyPattern cs)"

definition codePatterns :: "(jsstring \<Rightarrow> bool) list" where
  "codePatterns = [hasCodeBracket, hasEscape, startsWithComment, hasKeyword, hasPropertyPattern]"

text \<open>\<^verbatim>\<open>/^[\d\s.,\uFF0C\u3002]+$/\<close>: only digits, white space, dots and commas.\<close>

definition digitsOnly :: "jsstring \<Rightarrow> bool" where
  "digitsOnly text \<longleftrightarrow> text \<noteq> [] \<and>
     list_all (\<lambda>c. isDigit c \<or> isSpace c \<or> c \<in> set [0x2E, 0x2C, 0xFF0C, 0x3002]) text"

text \<open>\<^verbatim>\<open>/^[\s\p{P}]+$/u\<close>: only white space and punctuation, read by code points.\<close>

definition punctuationOnly :: "jsstring \<Rightarrow> bool" where
  "punctuationOnly text \<longleftrightarrow> codePoints text \<noteq> [] \<and>
     list_all (\<lambda>c. isSpace c \<or> unicodePunctuation c) (codePoints text)"

definition chineseCount :: "jsstring \<Rightarrow> nat" where
  "chineseCount text = length (filter isChinese text)"

definition englishCount :: "jsstring \<Rightarrow> nat" where
  "englishCount text = length (filter isLatinLetter text)"

text \<open>
  \<^verbatim>\<open>ASTChineseExtractor.isValidChineseText\<close>, the classifier of the tree-based
  extractor: at most 20 code units, and not more Latin letters than ideographs.
\<close>

definition ASTChineseExtractor_isValidChineseText :: "jsstring \<Rightarrow> bool" where
  "ASTChineseExtractor_isValidChineseText text =
     (if text = [] \<or> \<not> containsChinese text then False
      else if trim text = [] \<or> length text > 20 then False
      else if list_ex (\<lambda>pattern. pattern text) codePatterns then False
      else if digitsOnly text then False
      else if punctuationOnly text then False
      else if englishCount text > chineseCount text then False
      else True)"

text \<open>
  \<^verbatim>\<open>isValidChineseText\<close>, the classifier of the pattern-based extractor (the
  ts-morph extractor has a copy of it): at most 50 code units, and no comparison of
  the two counts.
\<close>

definition isValidChineseText :: "jsstring \<Rightarrow> bool" where
  "isValidChineseText text =
     (if \<not> containsChinese text then False
      else if trim text = [] then False
      else if length text > 50 then False
      else if list_ex (\<lambda>pattern. pattern text) codePatterns then False
      else if digitsOnly text then False
      else if punctuationOnly text then False
      else True)"

section \<open>The deduplicator\<close>

text \<open>
  \<^verbatim>\<open>s.replace(/\s+/g, r)\<close> with a one-character replacement: every maximal run of
  white space becomes \<open>r\<close>.
\<close>

function replaceSpaceRuns :: "nat \<Rightarrow> jsstring \<Rightarrow> jsstring" where
  "replaceSpaceRuns r [] = []"
| "replaceSpaceRuns r (c # cs) =
     (if isSpace c then r # replaceSpaceRuns r (dropWhile isSpace cs)
      else c # replaceSpaceRuns r cs)"
  by pat_completeness auto
termination
  by (relation "measure (\<lambda>(r, s). length s)") (auto simp: less_Suc_eq_le length_dropWhile_le)

text \<open>\<^verbatim>\<open>s.startsWith(t)\<close> and \<^verbatim>\<open>s.endsWith(t)\<close>.\<close>

definition startsWith :: "jsstring \<Rightarrow> jsstring \<Rightarrow> bool" where
  "startsWith s t \<longleftrightarrow> take (length t) s = t"

definition endsWith :: "jsstring \<Rightarrow> jsstring \<Rightarrow> bool" where
  "endsWith s t \<longleftrightarrow> startsWith (rev s) (rev t)"

text \<open>
  The punctuation that the normalised form drops: the full stop, the comma, the
  semicolon and the colon, the curly quotation marks, the parentheses, the enumeration
  comma and the angle quotation marks.
\<close>

definition commonPunctuation :: "nat \<Rightarrow> bool" where
  "commonPunctuation c \<longleftrightarrow> c \<in> set [0x3002, 0xFF0C, 0xFF1B, 0xFF1A, 0x201C, 0x201D, 0x2018,
     0x2019, 0xFF08, 0xFF09, 0x3001, 0x300A, 0x300B]"

text \<open>
  The normalised form of a text, the key of the deduplicator. \<^verbatim>\<open>toLowerCase\<close> is
  the case mapping of Unicode, a table of the JavaScript engine; the deduplicator is
  modelled for any such function.
\<close>

definition normalizeText :: "(jsstring \<Rightarrow> jsstring) \<Rightarrow> jsstring \<Rightarrow> jsstring" where
  "normalizeText toLowerCase text =
     toLowerCase (removeClass commonPunctuation (replaceSpaceRuns 0x20 (trim text)))"

text \<open>
  The quality score (the source gives the function a Chinese name, "text quality
  score"). The marks are the full stop U+3002, the question mark U+FF1F and the
  exclamation mark U+FF01, the comma U+FF0C and the enumeration comma U+3001.
\<close>

definition textQualityScore :: "jsstring \<Rightarrow> int" where
  "textQualityScore text =
     (let score = 0;
          score = score + int (min (length text) 20);
          score = (if endsWithClass (\<lambda>c. c \<in> set [0x3002, 0xFF1F, 0xFF01]) text
                   then score + 5 else score);
          score = (if list_ex (\<lambda>c. c \<in> set [0xFF0C, 0x3001]) text then score + 2 else score);
          score = (if startsWith text [0xFF0C] \<or> startsWith text [0x3001]
                   then score - 3 else score);
          score = (if endsWith text [0xFF0C] \<or> endsWith text [0x3001]
                   then score - 1 else score)
      in score)"

text \<open>\<^verbatim>\<open>array.indexOf(x)\<close>: the first position of \<open>x\<close>, \<open>None\<close> for -1.\<close>

fun indexOf :: "'a list \<Rightarrow> 'a \<Rightarrow> nat option" where
  "indexOf [] x = None"
| "indexOf (y # ys) x = (if y = x then Some 0 else map_option Suc (indexOf ys x))"

text \<open>
  The state of the loop of \<^verbatim>\<open>deduplicateTexts\<close>: the map from normalised forms to
  texts, and the array of results.
\<close>

record dedup_state =
  seen :: "jsstring \<rightharpoonup> jsstring"
  result :: "jsstring list"

text \<open>The body of the loop.\<close>

definition deduplicateStep :: "(jsstring \<Rightarrow> jsstring) \<Rightarrow> jsstring \<Rightarrow> dedup_state \<Rightarrow> dedup_state" where
  "deduplicateStep toLowerCase text st =
     (let normalized = normalizeText toLowerCase text in
      case seen st normalized of
        None \<Rightarrow> st\<lparr>seen := (seen st)(normalized \<mapsto> text), result := result st @ [text]\<rparr>
      | Some existingText \<Rightarrow>
          if length text > length existingText \<or>
             textQualityScore text > textQualityScore existingText
          then (case indexOf (result st) existingText of
                  None \<Rightarrow> st
                | Some index \<Rightarrow>
                    st\<lparr>result := (result st)[index := text],
                       seen := (seen st)(normalized \<mapsto> text)\<rparr>)
          else st)"

definition deduplicateTexts :: "(jsstring \<Rightarrow> jsstring) \<Rightarrow> jsstring list \<Rightarrow> jsstring list" where
  "deduplicateTexts toLowerCase texts =
     result (fold (deduplicateStep toLowerCase) texts \<lparr>seen = Map.empty, result = []\<rparr>)"

subsection \<open>The deduplicator in the words of the specification\<close>

text \<open>
  The score: the length capped at 20, plus 5 for a sentence-terminal mark at the end,
  plus 2 for a comma-class mark anywhere, minus 3 for a comma-class mark at the start,
  minus 1 for a comma-class mark at the end.
\<close>

definition score_spec :: "jsstring \<Rightarrow> int" where
  "score_spec phrase =
     int (min (length phrase) 20)
     + (if endsWithClass (\<lambda>c. c \<in> set [0x3002, 0xFF1F, 0xFF01]) phrase then 5 else 0)
     + (if list_ex (\<lambda>c. c \<in> set [0xFF0C, 0x3001]) phrase then 2 else 0)
     - (if startsWithClass (\<lambda>c. c \<in> set [0xFF0C, 0x3001]) phrase then 3 else 0)
     - (if endsWithClass (\<lambda>c. c \<in> set [0xFF0C, 0x3001]) phrase then 1 else 0)"

text \<open>
  The key of a phrase: the phrase trimmed, every run of white space in it collapsed to
  one space, the marks of the fixed set of common Chinese punctuation stripped, and the
  rest in lower case. A white space character followed by another one is dropped, and
  the last of a run becomes the space.
\<close>

fun collapse_spaces :: "jsstring \<Rightarrow> jsstring" where
  "collapse_spaces [] = []"
| "collapse_spaces [c] = [if isSpace c then 0x20 else c]"
| "collapse_spaces (c # d # rest) =
     (if isSpace c \<and> isSpace d then collapse_spaces (d # rest)
      else (if isSpace c then 0x20 else c) # collapse_spaces (d # rest))"

definition key_spec :: "(jsstring \<Rightarrow> jsstring) \<Rightarrow> jsstring \<Rightarrow> jsstring" where
  "key_spec toLowerCase phrase =
     toLowerCase (filter (\<lambda>c. c \<notin> {0x3002, 0xFF0C, 0xFF1B, 0xFF1A, 0x201C, 0x201D, 0x2018,
         0x2019, 0xFF08, 0xFF09, 0x3001, 0x300A, 0x300B})
       (collapse_spaces (trim phrase)))"

text \<open>
  One phrase arrives: a stored phrase with the same key is replaced where it stands if
  the new phrase is longer or scores higher, and stays otherwise; without a stored
  phrase of that key the new phrase is appended.
\<close>

fun dedupe_insert :: "(jsstring \<Rightarrow> jsstring) \<Rightarrow> jsstring \<Rightarrow> jsstring list \<Rightarrow> jsstring list" where
  "dedupe_insert toLowerCase phrase [] = [phrase]"
| "dedupe_insert toLowerCase phrase (stored # rest) =
     (if key_spec toLowerCase stored = key_spec toLowerCase phrase
      then (if length phrase > length stored \<or> score_spec phrase > score_spec stored
            then phrase # rest else stored # rest)
      else stored # dedupe_insert toLowerCase phrase rest)"

definition dedupe_spec :: "(jsstring \<Rightarrow> jsstring) \<Rightarrow> jsstring list \<Rightarrow> jsstring list" where
  "dedupe_spec toLowerCase phrases = fold (dedupe_insert toLowerCase) phrases []"

section \<open>The mapping generator\<close>

text \<open>
  The values that the generator handles: strings, \<^verbatim>\<open>null\<close>, \<^verbatim>\<open>undefined\<close>, and
  objects or functions (which only appear when a property inherited from
  \<^verbatim>\<open>Object.prototype\<close> is read).
\<close>

datatype jsvalue = JString jsstring | JNull | JUndefined | JObject

text \<open>The test \<^verbatim>\<open>if (v)\<close>.\<close>

definition truthy :: "jsvalue \<Rightarrow> bool" where
  "truthy v = (case v of JString s \<Rightarrow> s \<noteq> [] | JObject \<Rightarrow> True | JNull \<Rightarrow> False
     | JUndefined \<Rightarrow> False)"

text \<open>
  An object literal is the list of its own properties, in the order in which the engine
  lists them: the keys that are array indices first, in ascending order, then the other
  keys in the order of their creation. Reading a property that the object does not own
  finds the members of \<^verbatim>\<open>Object.prototype\<close>; writing creates or updates an own
  property, except for \<^verbatim>\<open>__proto__\<close>, whose setter never creates one.
\<close>

type_synonym jsobject = "(jsstring \<times> jsvalue) list"

definition objectPrototypeMembers :: "jsstring list" where
  "objectPrototypeMembers = map ascii [''constructor'', ''__defineGetter__'',
     ''__defineSetter__'', ''hasOwnProperty'', ''__lookupGetter__'', ''__lookupSetter__'',
     ''isPrototypeOf'', ''propertyIsEnumerable'', ''toString'', ''valueOf'', ''__proto__'',
     ''toLocaleString'']"

definition getProperty :: "jsobject \<Rightarrow> jsstring \<Rightarrow> jsvalue" where
  "getProperty obj key =
     (case map_of obj key of
        Some v \<Rightarrow> v
      | None \<Rightarrow> if key \<in> set objectPrototypeMembers then JObject else JUndefined)"

text \<open>
  An array index is the decimal numeral, without a leading zero, of a number below
  4294967295.
\<close>

definition indexValue :: "jsstring \<Rightarrow> nat" where
  "indexValue key = fold (\<lambda>c n. 10 * n + (c - 0x30)) key 0"

definition isArrayIndex :: "jsstring \<Rightarrow> bool" where
  "isArrayIndex key \<longleftrightarrow> key \<noteq> [] \<and> list_all isDigit key \<and> (hd key \<noteq> 0x30 \<or> key = [0x30]) \<and>
     indexValue key < 4294967295"

fun insertIndexed :: "jsstring \<Rightarrow> jsvalue \<Rightarrow> jsobject \<Rightarrow> jsobject" where
  "insertIndexed key v [] = [(key, v)]"
| "insertIndexed key v ((k, w) # rest) =
     (if isArrayIndex k \<and> indexValue k < indexValue key then (k, w) # insertIndexed key v rest
      else (key, v) # (k, w) # rest)"

definition setProperty :: "jsobject \<Rightarrow> jsstring \<Rightarrow> jsvalue \<Rightarrow> jsobject" where
  "setProperty obj key v =
     (if key = ascii ''__proto__'' then obj
      else if isArrayIndex key \<and> map_of obj key = None then insertIndexed key v obj
      else AList.update key v obj)"

text \<open>The built-in dictionary of \<^verbatim>\<open>getBuiltinTranslation\<close>, entry by entry.\<close>

definition dictionary :: "(jsstring \<times> jsstring) list" where
  "dictionary = [
    ([0x603B, 0x6B21, 0x6570], ascii ''Total Count''),
    ([0x603B, 0x548C], ascii ''Sum''),
    ([0x5E73, 0x5747, 0x503C], ascii ''Average''),
    ([0x6700, 0x5927, 0x503C], ascii ''Maximum''),
    ([0x6700, 0x5C0F, 0x503C], ascii ''Minimum''),
    ([0x8BA2, 0x5355, 0x6570, 0x91CF], ascii ''Order Count''),
    ([0x8BA2, 0x5355, 0x603B, 0x5546, 0x54C1, 0x6570, 0x91CF], ascii ''Total Product Count''),
    ([0x8BA2, 0x5355, 0x5B9E, 0x4ED8, 0x91D1, 0x989D], ascii ''Order Paid Amount''),
    ([0x8BA2, 0x5355, 0x603B, 0x5546, 0x54C1, 0x4EF7, 0x683C], ascii ''Total Product Price''),
    ([0x8BA2, 0x5355, 0x5546, 0x54C1, 0x6570, 0x91CF], ascii ''Order Product Count''),
    ([0x63D0, 0x4EA4, 0x8BA2, 0x5355], ascii ''Submit Order''),
    ([0x8BA2, 0x5355, 0x8BE6, 0x60C5], ascii ''Order Details''),
    ([0x7B49, 0x4E8E], ascii ''Equal''),
    ([0x4E0D, 0x7B49, 0x4E8E], ascii ''Not Equal''),
    ([0x5305, 0x542B], ascii ''Contains''),
    ([0x4E0D, 0x5305, 0x542B], ascii ''Not Contains''),
    ([0x6709, 0x503C], ascii ''Has Value''),
    ([0x6CA1, 0x503C], ascii ''No Value''),
    ([0x5C0F, 0x4E8E], ascii ''Less Than''),
    ([0x5927, 0x4E8E], ascii ''Greater Than''),
    ([0x5C0F, 0x4E8E, 0x7B49, 0x4E8E], ascii ''Less Than or Equal''),
    ([0x5927, 0x4E8E, 0x7B49, 0x4E8E], ascii ''Greater Than or Equal''),
    ([0x533A, 0x95F4], ascii ''Range''),
    ([0x4E3A, 0x771F], ascii ''True''),
    ([0x4E3A, 0x5047], ascii ''False''),
    ([0x4F18, 0x60E0, 0x91D1, 0x989D], ascii ''Discount Amount''),
    ([0x5546, 0x54C1, 0x4EF7, 0x683C], ascii ''Product Price''),
    ([0x5546, 0x54C1, 0x6570, 0x91CF], ascii ''Product Count''),
    ([0x5B9E, 0x4ED8, 0x91D1, 0x989D], ascii ''Paid Amount''),
    ([0x6027, 0x522B], ascii ''Gender''),
    ([0x7537, 0x6027], ascii ''Male''),
    ([0x5973, 0x6027], ascii ''Female''),
    ([0x6709, 0x8D5E], ascii ''Youzan''),
    ([0x6DD8, 0x5B9D], ascii ''Taobao''),
    ([0x6CE8, 0x518C, 0x6E20, 0x9053], ascii ''Registration Channel''),
    ([0x597D, 0x53CB, 0x7C7B, 0x522B], ascii ''Friend Category''),
    ([0x7528, 0x6237, 0x884C, 0x4E3A, 0x4E8B, 0x4EF6], ascii ''User Behavior Event''),
    ([0x505A, 0x8FC7], ascii ''Done''),
    ([0x672A, 0x505A, 0x8FC7], ascii ''Not Done''),
    ([0x5DF2, 0x505A, 0x8FC7], ascii ''Already Done''),
    ([0x4E0A, 0x4F20, 0x5931, 0x8D25], ascii ''Upload Failed''),
    ([0x5220, 0x9664], ascii ''Delete''),
    ([0x7F16, 0x8F91], ascii ''Edit''),
    ([0x4FDD, 0x5B58], ascii ''Save''),
    ([0x53D6, 0x6D88], ascii ''Cancel''),
    ([0x786E, 0x8BA4], ascii ''Confirm''),
    ([0x63D0, 0x4EA4], ascii ''Submit''),
    ([0x91CD, 0x7F6E], ascii ''Reset''),
    ([0x641C, 0x7D22], ascii ''Search''),
    ([0x67E5, 0x8BE2], ascii ''Query''),
    ([0x6DFB, 0x52A0], ascii ''Add''),
    ([0x65B0, 0x589E], ascii ''Add''),
    ([0x4FEE, 0x6539], ascii ''Modify''),
    ([0x66F4, 0x65B0], ascii ''Update''),
    ([0x5237, 0x65B0], ascii ''Refresh''),
    ([0x52A0, 0x8F7D], ascii ''Load''),
    ([0x5BFC, 0x5165], ascii ''Import''),
    ([0x5BFC, 0x51FA], ascii ''Export''),
    ([0x4E0B, 0x8F7D], ascii ''Download''),
    ([0x4E0A, 0x4F20], ascii ''Upload''),
    ([0x590D, 0x5236], ascii ''Copy''),
    ([0x7C98, 0x8D34], ascii ''Paste''),
    ([0x526A, 0x5207], ascii ''Cut''),
    ([0x5168, 0x9009], ascii ''Select All''),
    ([0x6E05, 0x7A7A], ascii ''Clear''),
    ([0x8FD4, 0x56DE], ascii ''Back''),
    ([0x4E0B, 0x4E00, 0x6B65], ascii ''Next''),
    ([0x4E0A, 0x4E00, 0x6B65], ascii ''Previous''),
    ([0x5B8C, 0x6210], ascii ''Complete''),
    ([0x5F00, 0x59CB], ascii ''Start''),
    ([0x7ED3, 0x675F], ascii ''End''),
    ([0x6682, 0x505C], ascii ''Pause''),
    ([0x7EE7, 0x7EED], ascii ''Continue''),
    ([0x505C, 0x6B62], ascii ''Stop''),
    ([0x91CD, 0x65B0, 0x5F00, 0x59CB], ascii ''Restart''),
    ([0x91CD, 0x8BD5], ascii ''Retry''),
    ([0x8DF3, 0x8FC7], ascii ''Skip''),
    ([0x5FFD, 0x7565], ascii ''Ignore''),
    ([0x5173, 0x95ED], ascii ''Close''),
    ([0x6253, 0x5F00], ascii ''Open''),
    ([0x5C55, 0x5F00], ascii ''Expand''),
    ([0x6536, 0x8D77], ascii ''Collapse''),
    ([0x663E, 0x793A], ascii ''Show''),
    ([0x9690, 0x85CF], ascii ''Hide''),
    ([0x542F, 0x7528], ascii ''Enable''),
    ([0x7981, 0x7528], ascii ''Disable''),
    ([0x6FC0, 0x6D3B], ascii ''Activate''),
    ([0x505C, 0x7528], ascii ''Deactivate'')]"

definition getBuiltinTranslation :: "jsstring \<Rightarrow> jsvalue" where
  "getBuiltinTranslation chineseText =
     (let entry = getProperty (map (\<lambda>(k, v). (k, JString v)) dictionary) chineseText
      in if truthy entry then entry else JNull)"

datatype js_error = UnsupportedTranslator jsstring | TranslationFailed | FileReadFailed
  | NotAFunction jsstring

text \<open>\<^verbatim>\<open>translateWithAPI\<close> is a stub of the source: it returns \<^verbatim>\<open>null\<close>.\<close>

definition translateWithAPI :: "jsstring \<Rightarrow> js_error + jsvalue" where
  "translateWithAPI chineseText = Inr JNull"

text \<open>
  \<^verbatim>\<open>generatePlaceholder\<close>: every ideograph becomes \<^verbatim>\<open>X\<close>, every run of white space
  an underscore, the whole is put in lower case and prefixed.
\<close>

definition generatePlaceholder :: "(jsstring \<Rightarrow> jsstring) \<Rightarrow> jsstring \<Rightarrow> jsstring" where
  "generatePlaceholder toLowerCase chineseText =
     ascii ''translate_'' @
       toLowerCase (replaceSpaceRuns 0x5F (replaceClass isChinese 0x58 chineseText))"

definition translateText :: "(jsstring \<Rightarrow> jsstring) \<Rightarrow> jsstring \<Rightarrow> jsvalue" where
  "translateText toLowerCase chineseText =
     (let translation = getBuiltinTranslation chineseText in
      if truthy translation then translation
      else case translateWithAPI chineseText of
          Inr onlineTranslation \<Rightarrow>
            if truthy onlineTranslation then onlineTranslation
            else JString (generatePlaceholder toLowerCase chineseText)
        | Inl error \<Rightarrow> JString (generatePlaceholder toLowerCase chineseText))"

text \<open>
  The translation manager: of its state only the name of the current service matters
  here. \<^verbatim>\<open>setTranslator\<close> throws for a name that the table of services does not know.
\<close>

record translation_manager =
  currentTranslator :: jsstring

definition newTranslationManager :: translation_manager where
  "newTranslationManager = \<lparr>currentTranslator = ascii ''baidu''\<rparr>"

definition translators :: jsobject where
  "translators = [(ascii ''baidu'', JObject), (ascii ''youdao'', JObject),
     (ascii ''google'', JObject)]"

definition setTranslator :: "translation_manager \<Rightarrow> jsstring \<Rightarrow> js_error + translation_manager" where
  "setTranslator this service =
     (if truthy (getProperty translators service) then Inr (this\<lparr>currentTranslator := service\<rparr>)
      else Inl (UnsupportedTranslator service))"

text \<open>The first \<^verbatim>\<open>try\<close> of \<^verbatim>\<open>generateMapping\<close>: a failure leaves the default service.\<close>

definition selectTranslator :: "jsstring \<Rightarrow> translation_manager" where
  "selectTranslator translatorService =
     (case setTranslator newTranslationManager translatorService of
        Inr translationManager \<Rightarrow> translationManager
      | Inl error \<Rightarrow> newTranslationManager)"

text \<open>
  \<^verbatim>\<open>generateMapping\<close>. The batch translation goes to the network: \<open>batchTranslate\<close>
  stands for \<^verbatim>\<open>translationManager.batchTranslate\<close> together with the reading of its
  result, and gives either the exception that ends the \<^verbatim>\<open>try\<close> block or, for each
  text, the value found for it in the result.
\<close>

type_synonym batch_translator =
  "translation_manager \<Rightarrow> jsstring list \<Rightarrow> js_error + (jsstring \<Rightarrow> jsvalue)"

definition generateMapping ::
  "(jsstring \<Rightarrow> jsstring) \<Rightarrow> batch_translator \<Rightarrow> jsstring list \<Rightarrow> jsstring \<Rightarrow> bool \<Rightarrow>
   js_error + jsobject" where
  "generateMapping toLowerCase batchTranslate chineseTexts translatorService shouldTranslate =
     (if \<not> shouldTranslate
      then Inr (fold (\<lambda>chineseText mapping.
                  setProperty mapping chineseText (JString (ascii ''to do translate'')))
                chineseTexts [])
      else
        let translationManager = selectTranslator translatorService in
        case batchTranslate translationManager chineseTexts of
          Inr apiTranslations \<Rightarrow>
            Inr (fold (\<lambda>chineseText mapping.
                   let apiTranslation = apiTranslations chineseText in
                   if truthy apiTranslation
                   then setProperty mapping chineseText apiTranslation
                   else setProperty mapping chineseText (translateText toLowerCase chineseText))
                 chineseTexts [])
        | Inl error \<Rightarrow>
            Inr (fold (\<lambda>chineseText mapping.
                   setProperty mapping chineseText (translateText toLowerCase chineseText))
                 chineseTexts []))"

section \<open>The pattern-based extractor\<close>

text \<open>
  The three quote expressions of \<^verbatim>\<open>extractChineseFromLine\<close> have the shape
  \<^verbatim>\<open>/q([^q]*[\u4e00-\u9fff][^q]*)q/g\<close> for a quote character \<open>q\<close>. A match starts
  at a quote, ends at the next quote and needs an ideograph in between. The loop over
  \<^verbatim>\<open>exec\<close> resumes after the closing quote of a match; where the text up to the next
  quote has no ideograph, the search goes on from that next quote, which may then open a
  match itself. The function returns the captured groups, in order.
\<close>

function quotedSpans :: "nat \<Rightarrow> jsstring \<Rightarrow> jsstring list" where
  "quotedSpans q s =
     (case dropWhile (\<lambda>c. c \<noteq> q) s of
        [] \<Rightarrow> []
      | _ # rest \<Rightarrow>
          (case dropWhile (\<lambda>c. c \<noteq> q) rest of
             [] \<Rightarrow> []
           | closing # after \<Rightarrow>
               if containsChinese (takeWhile (\<lambda>c. c \<noteq> q) rest)
               then takeWhile (\<lambda>c. c \<noteq> q) rest # quotedSpans q after
               else quotedSpans q (closing # after)))"
  by pat_completeness auto
termination
proof (relation "measure (\<lambda>(q, s). length s)")
  show "wf (measure (\<lambda>(q, s). length s))" by simp
next
  fix q :: nat and s :: jsstring and x rest closing after
  assume s: "dropWhile (\<lambda>c. c \<noteq> q) s = x # rest"
    and r: "dropWhile (\<lambda>c. c \<noteq> q) rest = closing # after"
  have "length (x # rest) \<le> length s" unfolding s [symmetric] by (rule length_dropWhile_le)
  moreover have "length (closing # after) \<le> length rest"
    unfolding r [symmetric] by (rule length_dropWhile_le)
  ultimately show "((q, after), (q, s)) \<in> measure (\<lambda>(q, s). length s)"
    and "((q, closing # after), (q, s)) \<in> measure (\<lambda>(q, s). length s)"
    by simp_all
qed

declare quotedSpans.simps [simp del]

text \<open>
  The interpolation marker \<^verbatim>\<open>/\$\{[^}]*\}/\<close> at the start of a string: a dollar sign,
  an opening brace and everything up to the first closing brace. The result is the rest
  of the string after the marker.
\<close>

definition interpolationAt :: "jsstring \<Rightarrow> jsstring option" where
  "interpolationAt s =
     (case s of
        a # b # t \<Rightarrow>
          if a = 0x24 \<and> b = 0x7B
          then (case dropWhile (\<lambda>c. c \<noteq> 0x7D) t of [] \<Rightarrow> None | _ # rest \<Rightarrow> Some rest)
          else None
      | _ \<Rightarrow> None)"

text \<open>
  \<^verbatim>\<open>templateContent.split(/\$\{[^}]*\}/)\<close>: the pieces between the markers, the
  accumulator holding the current piece in reverse.
\<close>

function splitInterpolationsFrom :: "jsstring \<Rightarrow> jsstring \<Rightarrow> jsstring list" where
  "splitInterpolationsFrom piece [] = [rev piece]"
| "splitInterpolationsFrom piece (c # cs) =
     (case interpolationAt (c # cs) of
        Some rest \<Rightarrow> rev piece # splitInterpolationsFrom [] rest
      | None \<Rightarrow> splitInterpolationsFrom (c # piece) cs)"
  by pat_completeness auto
termination
proof (relation "measure (\<lambda>(piece, s). length s)")
  show "wf (measure (\<lambda>(piece, s). length s))" by simp
next
  fix piece :: jsstring and c :: nat and cs rest :: jsstring
  assume "interpolationAt (c # cs) = Some rest"
  then obtain t x where "cs = 0x7B # t" and "dropWhile (\<lambda>c. c \<noteq> 0x7D) t = x # rest"
    by (auto simp: interpolationAt_def split: list.splits if_splits)
  moreover have "length (dropWhile (\<lambda>c. c \<noteq> 0x7D) t) \<le> length t" by (rule length_dropWhile_le)
  ultimately show "(([], rest), (piece, c # cs)) \<in> measure (\<lambda>(piece, s). length s)" by simp
next
  fix piece :: jsstring and c :: nat and cs :: jsstring
  show "((c # piece, cs), (piece, c # cs)) \<in> measure (\<lambda>(piece, s). length s)" by simp
qed

definition splitInterpolations :: "jsstring \<Rightarrow> jsstring list" where
  "splitInterpolations templateContent = splitInterpolationsFrom [] templateContent"

text \<open>
  \<^verbatim>\<open>isConsoleLogLine\<close>: the trimmed line starts with \<^verbatim>\<open>console.\<close>, one of the ten
  method names, optional white space and an opening parenthesis.
\<close>

definition consoleMethods :: "jsstring list" where
  "consoleMethods = map ascii [''log'', ''warn'', ''error'', ''info'', ''debug'', ''trace'',
     ''table'', ''dir'', ''group'', ''groupEnd'']"

definition isConsoleLogLine :: "jsstring \<Rightarrow> bool" where
  "isConsoleLogLine line =
     (let trimmedLine = trim line in
      list_ex (\<lambda>method.
          startsWith trimmedLine (ascii ''console.'' @ method) \<and>
          startsWithClass (\<lambda>c. c = 0x28)
            (dropWhile isSpace (drop (length (ascii ''console.'' @ method)) trimmedLine)))
        consoleMethods)"

text \<open>
  \<^verbatim>\<open>isEnumUsageLine\<close>. The first expression, \<^verbatim>\<open>/\w+\.[\u4e00-\u9fff]/\<close>, finds a
  word character, a dot and an ideograph in a row; the second,
  \<^verbatim>\<open>/key:\s*\w+\.[\u4e00-\u9fff]/\<close>, wants \<^verbatim>\<open>key:\<close>, optional white space and a whole
  word before the dot.
\<close>

fun memberAccess :: "jsstring \<Rightarrow> bool" where
  "memberAccess (a # b # c # rest) =
     ((isWordChar a \<and> b = 0x2E \<and> isChinese c) \<or> memberAccess (b # c # rest))"
| "memberAccess _ = False"

definition keyedAccessAt :: "jsstring \<Rightarrow> bool" where
  "keyedAccessAt s \<longleftrightarrow> startsWith s (ascii ''key:'') \<and>
     (let word = dropWhile isSpace (drop 4 s) in
      startsWithClass isWordChar word \<and>
      (case dropWhile isWordChar word of
         dot # c # rest \<Rightarrow> dot = 0x2E \<and> isChinese c
       | _ \<Rightarrow> False))"

fun keyedMemberAccess :: "jsstring \<Rightarrow> bool" where
  "keyedMemberAccess [] = False"
| "keyedMemberAccess (c # cs) = (keyedAccessAt (c # cs) \<or> keyedMemberAccess cs)"

definition isEnumUsageLine :: "jsstring \<Rightarrow> bool" where
  "isEnumUsageLine line = list_ex (\<lambda>pattern. pattern line) [memberAccess, keyedMemberAccess]"

text \<open>
  What every capture goes through, in the same words at each place of the source: the
  cleaner, and for each segment the classifier.
\<close>

definition validSegments :: "jsstring \<Rightarrow> jsstring list" where
  "validSegments rawText =
     filter (\<lambda>segment. segment \<noteq> [] \<and> isValidChineseText segment) (cleanChineseText rawText)"

text \<open>\<^verbatim>\<open>extractChineseFromLine\<close>: the three loops over the matches, pushing to \<open>texts\<close>.\<close>

definition extractChineseFromLine :: "jsstring \<Rightarrow> jsstring list" where
  "extractChineseFromLine line =
     (let texts = [] in
      if isConsoleLogLine line then texts
      else
        let texts = fold (\<lambda>captured texts. texts @ validSegments (trim captured))
                      (quotedSpans 0x27 line) texts;
            texts = fold (\<lambda>captured texts. texts @ validSegments (trim captured))
                      (quotedSpans 0x22 line) texts;
            texts = fold (\<lambda>templateContent texts.
                        if \<not> containsSubstring [0x24, 0x7B] templateContent
                        then texts @ validSegments (trim templateContent)
                        else fold (\<lambda>segment texts. texts @ validSegments (trim segment))
                               (splitInterpolations templateContent) texts)
                      (quotedSpans 0x60 line) texts
        in texts)"

text \<open>
  The expression of the first step of \<^verbatim>\<open>extractChineseFromFile\<close>,
  \<^verbatim>\<open>/\w+\s*=\s*(['"`])([^'"`)]*[\u4e00-\u9fff][^'"`)]*?)\1/g\<close>, at the start of a
  string: a word, an equals sign, a quote, a value without quotes and closing
  parentheses that holds an ideograph, and the same quote again. The result is the value
  and the rest of the string after the match.
\<close>

definition isQuote :: "nat \<Rightarrow> bool" where
  "isQuote c \<longleftrightarrow> c = 0x27 \<or> c = 0x22 \<or> c = 0x60"

definition endsValue :: "nat \<Rightarrow> bool" where
  "endsValue c \<longleftrightarrow> isQuote c \<or> c = 0x29"

definition quotedValueAt :: "jsstring \<Rightarrow> (jsstring \<times> jsstring) option" where
  "quotedValueAt s =
     (case s of
        [] \<Rightarrow> None
      | q # r \<Rightarrow>
          if \<not> isQuote q then None
          else (case dropWhile (\<lambda>c. \<not> endsValue c) r of
                  [] \<Rightarrow> None
                | closing # rest \<Rightarrow>
                    if closing = q \<and> containsChinese (takeWhile (\<lambda>c. \<not> endsValue c) r)
                    then Some (takeWhile (\<lambda>c. \<not> endsValue c) r, rest)
                    else None))"

definition enumValueAt :: "jsstring \<Rightarrow> (jsstring \<times> jsstring) option" where
  "enumValueAt s =
     (if \<not> startsWithClass isWordChar s then None
      else (case dropWhile isSpace (dropWhile isWordChar s) of
              [] \<Rightarrow> None
            | c # r \<Rightarrow> if c = 0x3D then quotedValueAt (dropWhile isSpace r) else None))"

text \<open>The loop over \<^verbatim>\<open>enumValueRegex.exec(content)\<close>: the captured values, in order.\<close>

function enumValueMatches :: "jsstring \<Rightarrow> jsstring list" where
  "enumValueMatches [] = []"
| "enumValueMatches (c # cs) =
     (case enumValueAt (c # cs) of
        Some (captured, rest) \<Rightarrow> captured # enumValueMatches rest
      | None \<Rightarrow> enumValueMatches cs)"
  by pat_completeness auto
termination
proof (relation "measure length")
  show "wf (measure length)" by simp
next
  fix c :: nat and cs :: jsstring and x captured rest
  assume "enumValueAt (c # cs) = Some x" and "(captured, rest) = x"
  then have at: "enumValueAt (c # cs) = Some (captured, rest)" by simp
  then obtain r where r: "dropWhile isSpace (dropWhile isWordChar (c # cs)) = 0x3D # r"
    and qv: "quotedValueAt (dropWhile isSpace r) = Some (captured, rest)"
    by (auto simp: enumValueAt_def split: if_splits list.splits)
  from qv obtain q v closing where v: "dropWhile isSpace r = q # v"
    and cl: "dropWhile (\<lambda>c. \<not> endsValue c) v = closing # rest"
    by (auto simp: quotedValueAt_def split: if_splits list.splits)
  have "length (closing # rest) \<le> length v" unfolding cl [symmetric] by (rule length_dropWhile_le)
  moreover have "length (q # v) \<le> length r" unfolding v [symmetric] by (rule length_dropWhile_le)
  moreover have "length (0x3D # r) \<le> length (dropWhile isWordChar (c # cs))"
    unfolding r [symmetric] by (rule length_dropWhile_le)
  moreover have "length (dropWhile isWordChar (c # cs)) \<le> length (c # cs)"
    by (rule length_dropWhile_le)
  ultimately show "(rest, c # cs) \<in> measure length" by simp
next
  fix c :: nat and cs :: jsstring
  show "(cs, c # cs) \<in> measure length" by simp
qed

text \<open>\<^verbatim>\<open>content.split('\n')\<close>.\<close>

function splitLines :: "jsstring \<Rightarrow> jsstring list" where
  "splitLines s =
     (case dropWhile (\<lambda>c. c \<noteq> 0x0A) s of
        [] \<Rightarrow> [s]
      | _ # rest \<Rightarrow> takeWhile (\<lambda>c. c \<noteq> 0x0A) s # splitLines rest)"
  by pat_completeness auto
termination
proof (relation "measure length")
  show "wf (measure length)" by simp
next
  fix s :: jsstring and x rest
  assume s: "dropWhile (\<lambda>c. c \<noteq> 0x0A) s = x # rest"
  have "length (x # rest) \<le> length s" unfolding s [symmetric] by (rule length_dropWhile_le)
  then show "(rest, s) \<in> measure length" by simp
qed

declare splitLines.simps [simp del]

text \<open>\<^verbatim>\<open>[...new Set(array)]\<close>: the first occurrence of each element, in order.\<close>

definition addToSet :: "'a \<Rightarrow> 'a list \<Rightarrow> 'a list" where
  "addToSet x xs = (if x \<in> set xs then xs else xs @ [x])"

definition uniqueTexts :: "'a list \<Rightarrow> 'a list" where
  "uniqueTexts xs = fold addToSet xs []"

text \<open>
  \<^verbatim>\<open>extractChineseFromFile\<close> of the pattern-based extractor. Its argument is what
  reading the file gives: the exception, or the content.
\<close>

definition extractChineseFromFile :: "js_error + jsstring \<Rightarrow> jsstring list" where
  "extractChineseFromFile fileRead =
     (case fileRead of
        Inl error \<Rightarrow> []
      | Inr content \<Rightarrow>
          let chineseTexts = [];
              chineseTexts = fold (\<lambda>captured chineseTexts.
                                 chineseTexts @ validSegments (trim captured))
                               (enumValueMatches content) chineseTexts;
              lines = splitLines content;
              chineseTexts = fold (\<lambda>line chineseTexts.
                                 if isEnumUsageLine line then chineseTexts
                                 else chineseTexts @ extractChineseFromLine line)
                               lines chineseTexts
          in uniqueTexts chineseTexts)"

section \<open>The tree-based extractor\<close>

text \<open>
  The syntax tree that the TypeScript parser delivers, with the kinds of nodes that the
  extractors look at; every other kind is \<open>OtherNode\<close> with its children. A leaf that
  carries text holds the text. The head of a template expression and the literal of a
  template span are leaves without a handler and are kept as the text fields of their
  parents; likewise the name of a property access.
\<close>

datatype node =
    StringLiteral jsstring
  | NoSubstitutionTemplateLiteral jsstring
  | TemplateExpression jsstring "node list"
  | TemplateSpan node jsstring
  | JsxText jsstring
  | JsxAttribute node "node option"
  | EnumDeclaration node "node list"
  | EnumMember node "node option"
  | CallExpression node "node list"
  | PropertyAccessExpression node jsstring
  | PropertyAssignment node node
  | ExpressionStatement node
  | Identifier jsstring
  | OtherNode "node list"

text \<open>\<^verbatim>\<open>ts.forEachChild\<close>: the children of a node, in the order of the source text.\<close>

fun forEachChild :: "node \<Rightarrow> node list" where
  "forEachChild (StringLiteral text) = []"
| "forEachChild (NoSubstitutionTemplateLiteral text) = []"
| "forEachChild (TemplateExpression head templateSpans) = templateSpans"
| "forEachChild (TemplateSpan expression literal) = [expression]"
| "forEachChild (JsxText text) = []"
| "forEachChild (JsxAttribute name initializer) = name # (case initializer of None \<Rightarrow> [] | Some i \<Rightarrow> [i])"
| "forEachChild (EnumDeclaration name members) = name # members"
| "forEachChild (EnumMember name initializer) = name # (case initializer of None \<Rightarrow> [] | Some i \<Rightarrow> [i])"
| "forEachChild (CallExpression expression arguments) = expression # arguments"
| "forEachChild (PropertyAccessExpression expression name) = [expression]"
| "forEachChild (PropertyAssignment name initializer) = [name, initializer]"
| "forEachChild (ExpressionStatement expression) = [expression]"
| "forEachChild (Identifier text) = []"
| "forEachChild (OtherNode children) = children"

subsection \<open>The class \<^verbatim>\<open>ASTChineseExtractor\<close>\<close>

record extraction_options =
  extractFromComments :: bool
  extractFromConsole :: bool
  extractFromJSX :: bool
  extractFromEnumValues :: bool
  extractFromEnumKeys :: bool

text \<open>The object: the set of texts, in the order of insertion, and the options.\<close>

record ast_extractor =
  chineseTexts :: "jsstring list"
  options :: extraction_options

text \<open>The constructor, with the default options.\<close>

definition newASTChineseExtractor :: ast_extractor where
  "newASTChineseExtractor =
     \<lparr>chineseTexts = [],
      options = \<lparr>extractFromComments = False, extractFromConsole = False,
        extractFromJSX = True, extractFromEnumValues = True, extractFromEnumKeys = False\<rparr>\<rparr>"

text \<open>
  What every handler does with a text, in the same words at each place of the source:
  if the text has an ideograph, clean it and add each segment that passes the
  classifier to the set.
\<close>

definition collectText :: "ast_extractor \<Rightarrow> jsstring \<Rightarrow> ast_extractor" where
  "collectText this text =
     (if containsChinese text
      then fold (\<lambda>segment this.
                  if ASTChineseExtractor_isValidChineseText segment
                  then this\<lparr>chineseTexts := addToSet segment (chineseTexts this)\<rparr>
                  else this)
             (ASTChineseExtractor_cleanChineseText text) this
      else this)"

definition handleStringLiteral :: "ast_extractor \<Rightarrow> node \<Rightarrow> ast_extractor" where
  "handleStringLiteral this node =
     (case node of StringLiteral text \<Rightarrow> collectText this text | _ \<Rightarrow> this)"

definition handleTemplateLiteral :: "ast_extractor \<Rightarrow> node \<Rightarrow> ast_extractor" where
  "handleTemplateLiteral this node =
     (case node of NoSubstitutionTemplateLiteral text \<Rightarrow> collectText this text | _ \<Rightarrow> this)"

definition handleTemplateExpression :: "ast_extractor \<Rightarrow> node \<Rightarrow> ast_extractor" where
  "handleTemplateExpression this node =
     (case node of
        TemplateExpression head templateSpans \<Rightarrow>
          fold (\<lambda>span this.
                 case span of TemplateSpan expression literal \<Rightarrow> collectText this literal
                 | _ \<Rightarrow> this)
            templateSpans (collectText this head)
      | _ \<Rightarrow> this)"

definition handleJSXText :: "ast_extractor \<Rightarrow> node \<Rightarrow> ast_extractor" where
  "handleJSXText this node =
     (if \<not> extractFromJSX (options this) then this
      else case node of JsxText text \<Rightarrow> collectText this text | _ \<Rightarrow> this)"

text \<open>
  \<^verbatim>\<open>handleEnumDeclaration\<close>: for each member, the name if the option for keys is set
  and the name is an identifier, then the value if the option for values is set and the
  initializer is a string literal.
\<close>

definition handleEnumMember :: "ast_extractor \<Rightarrow> node \<Rightarrow> ast_extractor" where
  "handleEnumMember this member =
     (case member of
        EnumMember name initializer \<Rightarrow>
          let this = (if extractFromEnumKeys (options this)
                      then (case name of Identifier keyName \<Rightarrow> collectText this keyName
                            | _ \<Rightarrow> this)
                      else this);
              this = (if extractFromEnumValues (options this)
                      then (case initializer of
                              Some (StringLiteral v) \<Rightarrow> collectText this v
                            | _ \<Rightarrow> this)
                      else this)
          in this
      | _ \<Rightarrow> this)"

definition handleEnumDeclaration :: "ast_extractor \<Rightarrow> node \<Rightarrow> ast_extractor" where
  "handleEnumDeclaration this node =
     (case node of
        EnumDeclaration name members \<Rightarrow> fold (\<lambda>member this. handleEnumMember this member) members this
      | _ \<Rightarrow> this)"

definition isConsoleCall :: "node \<Rightarrow> bool" where
  "isConsoleCall node =
     (case node of
        CallExpression (PropertyAccessExpression (Identifier object) property) arguments \<Rightarrow>
          object = ascii ''console'' \<and> property \<in> set consoleMethods
      | _ \<Rightarrow> False)"

text \<open>
  \<^verbatim>\<open>handleCallExpression\<close> returns early for a console call and does nothing
  otherwise: in both cases the extractor is as before.
\<close>

definition handleCallExpression :: "ast_extractor \<Rightarrow> node \<Rightarrow> ast_extractor" where
  "handleCallExpression this node =
     (if \<not> extractFromConsole (options this) \<and> isConsoleCall node then this else this)"

text \<open>The \<^verbatim>\<open>switch\<close> of \<^verbatim>\<open>visitNode\<close> over the kind of the node.\<close>

definition handleNode :: "ast_extractor \<Rightarrow> node \<Rightarrow> ast_extractor" where
  "handleNode this node =
     (case node of
        StringLiteral text \<Rightarrow> handleStringLiteral this node
      | NoSubstitutionTemplateLiteral text \<Rightarrow> handleTemplateLiteral this node
      | TemplateExpression head templateSpans \<Rightarrow> handleTemplateExpression this node
      | JsxText text \<Rightarrow> handleJSXText this node
      | EnumDeclaration name members \<Rightarrow> handleEnumDeclaration this node
      | CallExpression expression arguments \<Rightarrow> handleCallExpression this node
      | _ \<Rightarrow> this)"

text \<open>\<^verbatim>\<open>visitNode\<close>: the handler of the node, then every child.\<close>

function visitNode :: "ast_extractor \<Rightarrow> node \<Rightarrow> ast_extractor" where
  "visitNode this node =
     fold (\<lambda>child this. visitNode this child) (forEachChild node) (handleNode this node)"
  by pat_completeness auto
termination
proof (relation "measure (\<lambda>(this, node). size node)")
  show "wf (measure (\<lambda>(this, node). size node))" by simp
next
  fix this :: ast_extractor and node child :: node and acc :: ast_extractor
  assume "child \<in> set (forEachChild node)"
  then have "size child < size node"
    by (cases node) (auto simp: less_Suc_eq_le dest: size_list_estimation' [where f = size]
        split: option.splits)
  then show "((acc, child), (this, node)) \<in> measure (\<lambda>(this, node). size node)" by simp
qed

declare visitNode.simps [simp del]

text \<open>
  \<^verbatim>\<open>extractFromFile\<close>. Its argument is what reading and parsing the file give: the
  exception, or the tree of the source file. The object is returned with the result.
\<close>

definition extractFromFile :: "ast_extractor \<Rightarrow> js_error + node \<Rightarrow> ast_extractor \<times> jsstring list" where
  "extractFromFile this parsed =
     (case parsed of
        Inl error \<Rightarrow> (this, [])
      | Inr sourceFile \<Rightarrow>
          let this = this\<lparr>chineseTexts := []\<rparr>;
              this = visitNode this sourceFile
          in (this, chineseTexts this))"

subsection \<open>The extractor over ts-morph\<close>

text \<open>
  The test of \<^verbatim>\<open>isInConsoleStatement\<close> on one node of the chain of ancestors: a call
  of one of six methods of \<^verbatim>\<open>console\<close>, or an expression statement that is such a call.
  Only the identifier \<^verbatim>\<open>console\<close> has the source text \<^verbatim>\<open>console\<close>.
\<close>

definition isLoggingCall :: "node \<Rightarrow> bool" where
  "isLoggingCall node =
     (case node of
        CallExpression (PropertyAccessExpression (Identifier objectName) propertyName) arguments \<Rightarrow>
          trim objectName = ascii ''console'' \<and>
          propertyName \<in> set (map ascii [''log'', ''warn'', ''error'', ''info'', ''debug'', ''trace''])
      | _ \<Rightarrow> False)"

definition loggingAt :: "node \<Rightarrow> bool" where
  "loggingAt current =
     (case current of
        CallExpression expression arguments \<Rightarrow> isLoggingCall current
      | ExpressionStatement expression \<Rightarrow> isLoggingCall expression
      | _ \<Rightarrow> False)"

text \<open>
  The loop of \<^verbatim>\<open>isInConsoleStatement\<close> over the node and its ancestors, nearest first,
  as long as the depth is below 3.
\<close>

fun isInConsoleStatementFrom :: "nat \<Rightarrow> node list \<Rightarrow> bool" where
  "isInConsoleStatementFrom depth [] = False"
| "isInConsoleStatementFrom depth (current # parents) =
     (if depth < 3
      then (if loggingAt current then True else isInConsoleStatementFrom (depth + 1) parents)
      else False)"

definition isInConsoleStatement :: "node \<Rightarrow> node list \<Rightarrow> bool" where
  "isInConsoleStatement node ancestors = isInConsoleStatementFrom 0 (node # ancestors)"

text \<open>
  \<^verbatim>\<open>isStringLiteralAsKey\<close>: the parent is a property assignment or an enum member,
  and the node is its name node, which is its first child.
\<close>

definition isStringLiteralAsKey :: "node list \<Rightarrow> nat \<Rightarrow> bool" where
  "isStringLiteralAsKey ancestors index =
     (case ancestors of
        [] \<Rightarrow> False
      | PropertyAssignment name initializer # _ \<Rightarrow> index = 0
      | EnumMember name initializer # _ \<Rightarrow> index = 0
      | _ \<Rightarrow> False)"

text \<open>
  \<^verbatim>\<open>getLiteralValue()\<close> on the head of a template or on the literal of a template
  span. In ts-morph these nodes (template head, middle and tail) are literal-like nodes
  with \<^verbatim>\<open>getLiteralText\<close>; \<^verbatim>\<open>getLiteralValue\<close> belongs to the string literal and to
  the template literal without substitution. The call therefore raises the type error
  of calling what is not a function, whatever the text of the node is.
\<close>

definition getLiteralValue_templatePart :: "jsstring \<Rightarrow> js_error + jsstring" where
  "getLiteralValue_templatePart text = Inl (NotAFunction (ascii ''getLiteralValue''))"

text \<open>
  The callback of \<^verbatim>\<open>forEachDescendant\<close> on one node, given its ancestors and its
  position among the children of its parent. The classifier is the one with the limit
  of 50 code units, and nothing is cleaned. The result of the callback is the exception
  that leaves it, or the array.
\<close>

definition visitDescendant :: "node list \<Rightarrow> nat \<Rightarrow> node \<Rightarrow> jsstring list \<Rightarrow> js_error + jsstring list" where
  "visitDescendant ancestors index node texts =
     (if isInConsoleStatement node ancestors then Inr texts
      else case node of
          StringLiteral text \<Rightarrow>
            if isStringLiteralAsKey ancestors index then Inr texts
            else if isValidChineseText text then Inr (texts @ [text]) else Inr texts
        | TemplateExpression head templateSpans \<Rightarrow>
            (case getLiteralValue_templatePart head of
               Inl error \<Rightarrow> Inl error
             | Inr headText \<Rightarrow>
                 fold (\<lambda>span outcome.
                        case outcome of
                          Inl error \<Rightarrow> Inl error
                        | Inr texts \<Rightarrow>
                            (case span of
                               TemplateSpan expression literal \<Rightarrow>
                                 (case getLiteralValue_templatePart literal of
                                    Inl error \<Rightarrow> Inl error
                                  | Inr spanText \<Rightarrow>
                                      if isValidChineseText spanText
                                      then Inr (texts @ [spanText]) else Inr texts)
                             | _ \<Rightarrow> Inr texts))
                   templateSpans
                   (if isValidChineseText headText then Inr (texts @ [headText]) else Inr texts))
        | NoSubstitutionTemplateLiteral text \<Rightarrow>
            if isValidChineseText text then Inr (texts @ [text]) else Inr texts
        | JsxText text \<Rightarrow>
            if isValidChineseText (trim text) then Inr (texts @ [trim text]) else Inr texts
        | JsxAttribute name initializer \<Rightarrow>
            (case initializer of
               Some (StringLiteral text) \<Rightarrow>
                 if isValidChineseText text then Inr (texts @ [text]) else Inr texts
             | _ \<Rightarrow> Inr texts)
        | _ \<Rightarrow> Inr texts)"

text \<open>
  \<^verbatim>\<open>forEachDescendant\<close>: every descendant, parents before children. An exception of
  the callback ends the traversal.
\<close>

function forEachDescendant :: "node list \<Rightarrow> node \<Rightarrow> jsstring list \<Rightarrow> js_error + jsstring list" where
  "forEachDescendant ancestors node texts =
     fold (\<lambda>(index, child) outcome.
            case outcome of
              Inl error \<Rightarrow> Inl error
            | Inr texts \<Rightarrow>
                (case visitDescendant (node # ancestors) index child texts of
                   Inl error \<Rightarrow> Inl error
                 | Inr texts \<Rightarrow> forEachDescendant (node # ancestors) child texts))
       (enumerate 0 (forEachChild node)) (Inr texts)"
  by pat_completeness auto
termination
proof (relation "measure (\<lambda>(ancestors, node, texts). size node)")
  show "wf (measure (\<lambda>(ancestors, node, texts). size node))" by simp
next
  fix ancestors :: "node list" and node child :: node and texts visited :: "jsstring list"
    and x :: "nat \<times> node" and index :: nat
  assume "x \<in> set (enumerate 0 (forEachChild node))" and "(index, child) = x"
  then have "child \<in> set (forEachChild node)" by (auto simp: in_set_enumerate_eq)
  then have "size child < size node"
    by (cases node) (auto simp: less_Suc_eq_le dest: size_list_estimation' [where f = size]
        split: option.splits)
  then show "((node # ancestors, child, visited), (ancestors, node, texts)) \<in>
      measure (\<lambda>(ancestors, node, texts). size node)"
    by simp
qed

declare forEachDescendant.simps [simp del]

text \<open>
  \<^verbatim>\<open>extractChineseFromFile\<close> of the extractor over ts-morph: a new project and a new
  array for every call. Its argument is what reading and parsing the file give. An
  exception of the traversal is caught like one of the reading: the result is the empty
  array, whatever the array held.
\<close>

definition extractChineseFromFile_tsmorph :: "js_error + node \<Rightarrow> jsstring list" where
  "extractChineseFromFile_tsmorph parsed =
     (case parsed of
        Inl error \<Rightarrow> []
      | Inr sourceFile \<Rightarrow>
          (case forEachDescendant [] sourceFile [] of
             Inl error \<Rightarrow> []
           | Inr texts \<Rightarrow> texts))"
section \<open>Notions used in the proofs\<close>

text \<open>
  A code unit that the cleaner leaves alone: not ASCII, not white space, not Chinese
  punctuation, not an icon of the two classes and not in a pictograph range.
\<close>

definition pureChar :: "nat \<Rightarrow> bool" where
  "pureChar c \<longleftrightarrow> \<not> isAscii c \<and> \<not> isSpace c \<and> \<not> chinesePunctuation c \<and> \<not> iconClassA c \<and>
     \<not> iconClassB c \<and> \<not> emojiRange c"

text \<open>
  The invariant of the loop of \<^verbatim>\<open>deduplicateTexts\<close>: the results have pairwise
  different normalised forms, and the map sends exactly the normalised form of each
  result to that result.
\<close>

definition dedup_inv :: "(jsstring \<Rightarrow> jsstring) \<Rightarrow> dedup_state \<Rightarrow> bool" where
  "dedup_inv lc st \<longleftrightarrow> distinct (map (normalizeText lc) (result st)) \<and>
     (\<forall>k t. seen st k = Some t \<longleftrightarrow> t \<in> set (result st) \<and> normalizeText lc t = k)"

text \<open>
  The content of a template literal, written from its parts as the parser sees them:
  the head, and for each span the interpolated expression between \<^verbatim>\<open>${\<close> and
  \<^verbatim>\<open>}\<close> and the literal text that follows it.
\<close>

fun interpolate :: "jsstring \<Rightarrow> (jsstring \<times> jsstring) list \<Rightarrow> jsstring" where
  "interpolate literal [] = literal"
| "interpolate literal ((expression, next) # spans) =
     literal @ [0x24, 0x7B] @ expression @ [0x7D] @ interpolate next spans"

section \<open>Rules for evaluating the definitions on concrete strings\<close>

lemmas class_defs = isChinese_def isSpace_def isDigit_def isLatinLetter_def isWordChar_def
  isAscii_def iconClassA_def iconClassB_def asciiSymbolClass_def chinesePunctuation_def
  isHighSurrogate_def isLowSurrogate_def emojiRange_def codePoint_def

lemmas string_defs = trim_def replaceClass_def removeClass_def stripLeading_def
  stripTrailing_def startsWithClass_def endsWithClass_def splitRuns.simps containsChinese_def
  ascii_def

lemmas clean_defs = ASTChineseExtractor_cleanChineseText_def cleanChineseText_def
  stripSymbols_def trimPunctuation_def cleanSegment_def keepSegment_def Let_def

lemmas valid_defs = ASTChineseExtractor_isValidChineseText_def isValidChineseText_def
  codePatterns_def hasCodeBracket_def hasEscape_def startsWithComment_def hasKeyword_def
  codeKeywords_def canonicalize_def colonThenWord_def digitsOnly_def punctuationOnly_def
  chineseCount_def englishCount_def unicodePunctuation_def punctuationRanges_def

lemmas mapping_defs = generateMapping_def selectTranslator_def setTranslator_def
  newTranslationManager_def translators_def translateText_def translateWithAPI_def
  getBuiltinTranslation_def getProperty_def setProperty_def isArrayIndex_def isDigit_def
  truthy_def generatePlaceholder_def
  objectPrototypeMembers_def dictionary_def ascii_def Let_def replaceClass_def

section \<open>What the cleaner does to the code units\<close>

lemma surrogate_not_emoji:
  "isHighSurrogate c \<or> isLowSurrogate c \<Longrightarrow> \<not> emojiRange c"
  unfolding isHighSurrogate_def isLowSurrogate_def emojiRange_def by arith

lemma replaceEmoji_chars:
  "c \<in> set (replaceEmoji s) \<Longrightarrow> c = 0x20 \<or> (c \<in> set s \<and> \<not> emojiRange c)"
proof (induction s rule: replaceEmoji.induct)
  case (1 h l rest)
  show ?case
  proof (cases "isHighSurrogate h \<and> isLowSurrogate l")
    case True
    with 1 show ?thesis
      using surrogate_not_emoji [of h] surrogate_not_emoji [of l]
      by (cases "emojiRange (codePoint h l)") auto
  next
    case False
    with 1 show ?thesis by (cases "emojiRange h") auto
  qed
next
  case (2 c')
  then show ?case by (cases "emojiRange c'") auto
next
  case 3
  then show ?case by simp
qed

lemma replaceClass_chars:
  "c \<in> set (replaceClass cls r s) \<Longrightarrow> c = r \<or> (c \<in> set s \<and> \<not> cls c)"
  by (auto simp: replaceClass_def split: if_splits)

lemma stripLeading_subset: "set (stripLeading cls s) \<subseteq> set s"
  by (auto simp: stripLeading_def dest: set_dropWhileD)

lemma stripTrailing_subset: "set (stripTrailing cls s) \<subseteq> set s"
  by (auto simp: stripTrailing_def dest: set_dropWhileD)

lemma trim_subset: "set (trim s) \<subseteq> set s"
  by (auto simp: trim_def dest!: set_dropWhileD)

lemma trimPunctuation_subset: "set (trimPunctuation s) \<subseteq> set s"
  unfolding trimPunctuation_def
  using stripTrailing_subset stripLeading_subset by (meson subset_trans)

lemma splitRuns_no_separator:
  "\<forall>c\<in>set s. \<not> cls c \<Longrightarrow> splitRuns cls s = [s]"
proof -
  assume "\<forall>c\<in>set s. \<not> cls c"
  then have none: "dropWhile (\<lambda>c. \<not> cls c) s = []" by simp
  show ?thesis by (subst splitRuns.simps) (simp only: none list.case)
qed

lemma splitRuns_chars:
  "x \<in> set (splitRuns cls s) \<Longrightarrow> c \<in> set x \<Longrightarrow> c \<in> set s \<and> \<not> cls c"
proof (induction cls s arbitrary: x rule: splitRuns.induct)
  case (1 cls s)
  show ?case
  proof (cases "dropWhile (\<lambda>c. \<not> cls c) s")
    case Nil
    then have none: "\<forall>c\<in>set s. \<not> cls c" by simp
    then have "splitRuns cls s = [s]" by (rule splitRuns_no_separator)
    with "1.prems" none show ?thesis by simp
  next
    case (Cons d rest)
    have "splitRuns cls s =
        takeWhile (\<lambda>c. \<not> cls c) s # splitRuns cls (dropWhile cls rest)"
      by (subst splitRuns.simps) (simp only: Cons list.case)
    with "1.prems"(1) consider "x = takeWhile (\<lambda>c. \<not> cls c) s"
      | "x \<in> set (splitRuns cls (dropWhile cls rest))"
      by auto
    then show ?thesis
    proof cases
      case 1
      with "1.prems"(2) show ?thesis by (auto dest: set_takeWhileD)
    next
      case 2
      from "1.IH" [OF Cons 2 "1.prems"(2)] have "c \<in> set (dropWhile cls rest)" "\<not> cls c"
        by simp_all
      then have "c \<in> set rest" by (auto dest: set_dropWhileD)
      then have "c \<in> set (dropWhile (\<lambda>c. \<not> cls c) s)" by (simp add: Cons)
      then have "c \<in> set s" by (auto dest: set_dropWhileD)
      with \<open>\<not> cls c\<close> show ?thesis by simp
    qed
  qed
qed

lemma astral_emoji_high:
  "isHighSurrogate h \<Longrightarrow> isLowSurrogate l \<Longrightarrow> emojiRange (codePoint h l) \<Longrightarrow>
   h = 0xD83C \<or> h = 0xD83D"
  unfolding isHighSurrogate_def isLowSurrogate_def emojiRange_def codePoint_def
  by arith

lemma replaceEmoji_id:
  "\<forall>c\<in>set s. \<not> emojiRange c \<and> c \<noteq> 0xD83C \<and> c \<noteq> 0xD83D \<Longrightarrow> replaceEmoji s = s"
proof (induction s rule: replaceEmoji.induct)
  case (1 h l rest)
  then show ?case using astral_emoji_high [of h l] by auto
qed simp_all

lemma replaceClass_id: "\<forall>c\<in>set s. \<not> cls c \<Longrightarrow> replaceClass cls r s = s"
  by (simp add: replaceClass_def map_idI)

lemma removeClass_id: "\<forall>c\<in>set s. \<not> cls c \<Longrightarrow> removeClass cls s = s"
  by (simp add: removeClass_def)

lemma stripLeading_id: "\<forall>c\<in>set s. \<not> cls c \<Longrightarrow> stripLeading cls s = s"
  by (cases s) (simp_all add: stripLeading_def)

lemma stripTrailing_id: "\<forall>c\<in>set s. \<not> cls c \<Longrightarrow> stripTrailing cls s = s"
proof -
  assume "\<forall>c\<in>set s. \<not> cls c"
  then have "\<forall>c\<in>set (rev s). \<not> cls c" by simp
  then have "dropWhile cls (rev s) = rev s" by (cases "rev s") simp_all
  then show ?thesis by (simp add: stripTrailing_def)
qed

lemma trim_id: "\<forall>c\<in>set s. \<not> isSpace c \<Longrightarrow> trim s = s"
  using stripLeading_id [of s isSpace] stripTrailing_id [of s isSpace]
  by (simp add: trim_def stripLeading_def stripTrailing_def)

lemma pureChar_classes:
  assumes "pureChar c"
  shows "\<not> asciiSymbolClass c" "\<not> isLatinLetter c" "\<not> isDigit c" "c \<noteq> 0xD83C" "c \<noteq> 0xD83D"
  using assms
  by (auto simp: pureChar_def isAscii_def asciiSymbolClass_def isLatinLetter_def isDigit_def
      iconClassA_def)

lemma clean_pure_id:
  assumes pure: "\<forall>c\<in>set p. pureChar c" and ne: "p \<noteq> []" and ch: "containsChinese p"
    and len: "length p \<le> 20"
  shows "ASTChineseExtractor_cleanChineseText p = [p]"
proof -
  have sym: "stripSymbols p = p"
    using pure pureChar_classes
    by (simp add: stripSymbols_def replaceEmoji_id replaceClass_id pureChar_def)
  have np: "\<forall>c\<in>set p. \<not> chinesePunctuation c" using pure by (simp add: pureChar_def)
  have tp: "trimPunctuation p = p"
    using np by (simp add: trimPunctuation_def stripLeading_id stripTrailing_id)
  have sp: "splitRuns chinesePunctuation p = [p]" using np by (rule splitRuns_no_separator)
  have tr: "trim p = p" using pure by (simp add: trim_id pureChar_def)
  have cs: "cleanSegment p = p"
    using pure pureChar_classes np tr
    by (simp add: cleanSegment_def removeClass_id stripLeading_id stripTrailing_id pureChar_def)
  have "\<not> startsWithClass chinesePunctuation p"
    using np ne by (cases p) (simp_all add: startsWithClass_def)
  moreover have "\<not> endsWithClass chinesePunctuation p"
    using np ne by (cases "rev p") (auto simp: endsWithClass_def startsWithClass_def)
  ultimately have ks: "keepSegment p" using ne ch len by (simp add: keepSegment_def)
  show ?thesis
    using ne ch sym tp sp tr cs ks by (simp add: ASTChineseExtractor_cleanChineseText_def Let_def)
qed

lemma cleaned_is_pure:
  assumes "p \<in> set (ASTChineseExtractor_cleanChineseText text)"
  shows "(\<forall>c\<in>set p. pureChar c) \<and> p \<noteq> [] \<and> containsChinese p \<and> length p \<le> 20"
proof -
  define cleanedText where "cleanedText = trimPunctuation (stripSymbols text)"
  from assms obtain seg where keep: "keepSegment p" and p: "p = cleanSegment seg"
    and seg: "seg \<in> set (map trim (splitRuns chinesePunctuation cleanedText))"
    by (auto simp: ASTChineseExtractor_cleanChineseText_def Let_def cleanedText_def
        split: if_splits)
  from seg obtain piece where piece: "piece \<in> set (splitRuns chinesePunctuation cleanedText)"
    and seg': "seg = trim piece" by auto
  have "pureChar c" if c: "c \<in> set p" for c
  proof -
    define inner where
      "inner = removeClass isAscii
         (removeClass (\<lambda>c. isLatinLetter c \<or> isDigit c \<or> isSpace c) seg)"
    have "set p \<subseteq> set inner"
      unfolding p cleanSegment_def inner_def
      using trim_subset stripTrailing_subset stripLeading_subset by (meson subset_trans)
    with c have "c \<in> set inner" by auto
    then have c1: "c \<in> set seg" "\<not> isAscii c" "\<not> isSpace c"
      by (auto simp: inner_def removeClass_def)
    with seg' have "c \<in> set piece" using trim_subset by auto
    from splitRuns_chars [OF piece this] have c2: "c \<in> set cleanedText" "\<not> chinesePunctuation c"
      by simp_all
    then have c3: "c \<in> set (stripSymbols text)"
      using trimPunctuation_subset [of "stripSymbols text"] by (auto simp: cleanedText_def)
    have sp: "c \<noteq> 0x20" using c1(2) by (auto simp: isAscii_def)
    from c3 sp have "\<not> iconClassB c \<and> \<not> iconClassA c \<and> \<not> emojiRange c"
      unfolding stripSymbols_def
      by (auto dest!: replaceClass_chars replaceEmoji_chars)
    with c1 c2 show ?thesis by (simp add: pureChar_def)
  qed
  with keep show ?thesis by (simp add: keepSegment_def)
qed

lemma containsSubstring_member:
  "containsSubstring k s \<Longrightarrow> k \<noteq> [] \<Longrightarrow> hd k \<in> set s"
proof (induction s)
  case Nil
  then show ?case by simp
next
  case (Cons c cs)
  show ?case
  proof (cases "take (length k) (c # cs) = k")
    case True
    with Cons.prems(2) have "hd k = c" by (cases k) auto
    then show ?thesis by simp
  next
    case False
    with Cons show ?thesis by simp
  qed
qed

lemma hasPropertyPattern_word: "hasPropertyPattern s \<Longrightarrow> \<exists>c\<in>set s. isWordChar c"
  by (induction s) auto

lemma chinese_not_surrogate: "isChinese c \<Longrightarrow> \<not> isHighSurrogate c \<and> \<not> isLowSurrogate c"
  by (simp add: isChinese_def isHighSurrogate_def isLowSurrogate_def)

lemma chinese_in_codePoints: "c \<in> set s \<Longrightarrow> isChinese c \<Longrightarrow> c \<in> set (codePoints s)"
proof (induction s rule: codePoints.induct)
  case (1 h l rest)
  then show ?case using chinese_not_surrogate [of c] by auto
qed simp_all

lemma chinese_not_punctuation: "isChinese c \<Longrightarrow> \<not> unicodePunctuation c"
  unfolding isChinese_def unicodePunctuation_def punctuationRanges_def by simp

lemma chinese_not_space: "isChinese c \<Longrightarrow> \<not> isSpace c"
  unfolding isChinese_def isSpace_def by arith

lemma contains_chinese_not_punctuationOnly: "containsChinese s \<Longrightarrow> \<not> punctuationOnly s"
proof -
  assume "containsChinese s"
  then obtain c where c: "c \<in> set s" "isChinese c"
    by (auto simp: containsChinese_def list_ex_iff)
  then have "c \<in> set (codePoints s)" by (rule chinese_in_codePoints)
  moreover have "\<not> (isSpace c \<or> unicodePunctuation c)"
    using c(2) chinese_not_space chinese_not_punctuation by simp
  ultimately show ?thesis by (auto simp: punctuationOnly_def list_all_iff)
qed

lemma contains_chinese_not_digitsOnly: "containsChinese s \<Longrightarrow> \<not> digitsOnly s"
proof -
  assume "containsChinese s"
  then obtain c where c: "c \<in> set s" "isChinese c"
    by (auto simp: containsChinese_def list_ex_iff)
  from c(2) have "\<not> (isDigit c \<or> isSpace c \<or> c \<in> set [0x2E, 0x2C, 0xFF0C, 0x3002])"
    by (auto simp: isChinese_def isDigit_def isSpace_def)
  with c(1) show ?thesis by (auto simp: digitsOnly_def list_all_iff)
qed

lemma canonicalize_ascii: "canonicalize c \<le> 0x7F \<Longrightarrow> isAscii c"
  by (auto simp: canonicalize_def isAscii_def split: if_splits)

lemma keyword_ascii: "k \<in> set codeKeywords \<Longrightarrow> k \<noteq> [] \<and> canonicalize (hd k) \<le> 0x7F"
  by (auto simp: codeKeywords_def ascii_def canonicalize_def)

lemma wordChar_ascii: "isWordChar c \<Longrightarrow> isAscii c"
  unfolding isWordChar_def isLatinLetter_def isDigit_def isAscii_def by arith

lemma no_ascii_no_code_pattern:
  assumes "\<forall>c\<in>set p. \<not> isAscii c"
  shows "\<not> list_ex (\<lambda>pattern. pattern p) codePatterns"
proof -
  have "\<not> hasCodeBracket p"
    using assms by (auto simp: hasCodeBracket_def list_ex_iff isAscii_def)
  moreover have "\<not> hasEscape p"
  proof
    assume "hasEscape p"
    then have "0x5C \<in> set p"
      using containsSubstring_member [of "[0x5C, 0x6E]" p]
        containsSubstring_member [of "[0x5C, 0x74]" p]
      by (auto simp: hasEscape_def)
    with assms show False by (auto simp: isAscii_def)
  qed
  moreover have "\<not> startsWithComment p"
  proof
    assume "startsWithComment p"
    then have "take 2 (dropWhile isSpace p) = [0x2F, 0x2F]" by (simp add: startsWithComment_def)
    then have "0x2F \<in> set (take 2 (dropWhile isSpace p))" by simp
    then have "0x2F \<in> set p" by (auto dest: in_set_takeD set_dropWhileD)
    with assms show False by (auto simp: isAscii_def)
  qed
  moreover have "\<not> hasKeyword p"
  proof
    assume "hasKeyword p"
    then obtain k where k: "k \<in> set codeKeywords"
      and sub: "containsSubstring (map canonicalize k) (map canonicalize p)"
      by (auto simp: hasKeyword_def list_ex_iff)
    from keyword_ascii [OF k] have kne: "k \<noteq> []" and kasc: "canonicalize (hd k) \<le> 0x7F"
      by simp_all
    from containsSubstring_member [OF sub] kne
    have "hd (map canonicalize k) \<in> set (map canonicalize p)" by simp
    with kne obtain c where "c \<in> set p" "canonicalize c = canonicalize (hd k)"
      by (auto simp: hd_map)
    with kasc canonicalize_ascii [of c] assms show False by auto
  qed
  moreover have "\<not> hasPropertyPattern p"
    using assms hasPropertyPattern_word [of p] wordChar_ascii by blast
  ultimately show ?thesis by (simp add: codePatterns_def)
qed

lemma pure_valid:
  assumes pure: "\<forall>c\<in>set p. pureChar c" and ne: "p \<noteq> []" and ch: "containsChinese p"
    and len: "length p \<le> 20"
  shows "ASTChineseExtractor_isValidChineseText p"
proof -
  have tr: "trim p = p" using pure by (simp add: trim_id pureChar_def)
  have asc: "\<forall>c\<in>set p. \<not> isAscii c" using pure by (simp add: pureChar_def)
  have "filter isLatinLetter p = []"
    using pure pureChar_classes(2) by (auto simp: filter_empty_conv)
  then have "englishCount p = 0" by (simp add: englishCount_def)
  then show ?thesis
    using ne ch len tr no_ascii_no_code_pattern [OF asc] contains_chinese_not_digitsOnly [OF ch]
      contains_chinese_not_punctuationOnly [OF ch]
    by (simp add: ASTChineseExtractor_isValidChineseText_def)
qed

section \<open>The loop of the deduplicator\<close>

lemma startsWith_single: "startsWith s [c] \<longleftrightarrow> startsWithClass (\<lambda>x. x = c) s"
  by (cases s) (auto simp: startsWith_def startsWithClass_def)

lemma textQualityScore_spec: "textQualityScore text = score_spec text"
proof -
  have st: "startsWith text [0xFF0C] \<or> startsWith text [0x3001] \<longleftrightarrow>
      startsWithClass (\<lambda>c. c \<in> set [0xFF0C, 0x3001]) text"
    by (cases "text") (auto simp: startsWith_def startsWithClass_def)
  have en: "endsWith text [0xFF0C] \<or> endsWith text [0x3001] \<longleftrightarrow>
      endsWithClass (\<lambda>c. c \<in> set [0xFF0C, 0x3001]) text"
    by (cases "rev text") (auto simp: endsWith_def endsWithClass_def startsWith_def startsWithClass_def)
  show ?thesis
    unfolding textQualityScore_def score_spec_def Let_def st en by simp
qed

text \<open>The two ways of collapsing the runs of white space agree.\<close>

lemma replaceSpaceRuns_collapse: "replaceSpaceRuns 0x20 s = collapse_spaces s"
proof (induction s rule: collapse_spaces.induct)
  case 1
  show ?case by simp
next
  case (2 c)
  show ?case by simp
next
  case (3 c d rest)
  show ?case
  proof (cases "isSpace c")
    case False
    with 3 show ?thesis by simp
  next
    case c: True
    show ?thesis
    proof (cases "isSpace d")
      case False
      with c 3 show ?thesis by simp
    next
      case True
      with c 3 show ?thesis by simp
    qed
  qed
qed

lemma normalizeText_key: "normalizeText lc t = key_spec lc t"
  by (simp add: normalizeText_def key_spec_def removeClass_def commonPunctuation_def
      replaceSpaceRuns_collapse)

lemma dedupe_insert_eval:
  "dedupe_insert lc t [] = [t]"
  "dedupe_insert lc t (stored # rest) =
     (if normalizeText lc stored = normalizeText lc t
      then (if length t > length stored \<or> score_spec t > score_spec stored
            then t # rest else stored # rest)
      else stored # dedupe_insert lc t rest)"
  by (simp_all add: normalizeText_key)

declare dedupe_insert.simps [simp del]

lemma dedupe_insert_new:
  "\<forall>p\<in>set ps. normalizeText lc p \<noteq> normalizeText lc t \<Longrightarrow> dedupe_insert lc t ps = ps @ [t]"
  by (induction ps) (auto simp: dedupe_insert_eval)

lemma dedupe_insert_old:
  "distinct (map (normalizeText lc) ps) \<Longrightarrow> e \<in> set ps \<Longrightarrow>
   normalizeText lc e = normalizeText lc t \<Longrightarrow>
   \<exists>i. indexOf ps e = Some i \<and> i < length ps \<and> ps ! i = e \<and>
     dedupe_insert lc t ps =
       (if length t > length e \<or> score_spec t > score_spec e then ps[i := t] else ps)"
proof (induction ps)
  case Nil
  then show ?case by simp
next
  case (Cons p ps)
  show ?case
  proof (cases "p = e")
    case True
    with Cons.prems show ?thesis by (simp add: dedupe_insert_eval)
  next
    case False
    with Cons.prems have e: "e \<in> set ps" by simp
    from Cons.prems(1) have "normalizeText lc p \<notin> normalizeText lc ` set ps" by simp
    with e have "normalizeText lc p \<noteq> normalizeText lc e" by blast
    with Cons.prems have ne: "normalizeText lc p \<noteq> normalizeText lc t" by simp
    from Cons.IH [OF _ e Cons.prems(3)] Cons.prems(1)
    obtain i where "indexOf ps e = Some i" "i < length ps" "ps ! i = e"
      "dedupe_insert lc t ps =
        (if length t > length e \<or> score_spec t > score_spec e then ps[i := t] else ps)"
      by auto
    with False ne show ?thesis by (intro exI [of _ "Suc i"]) (simp add: dedupe_insert_eval)
  qed
qed

lemma deduplicateStep_refines:
  assumes inv: "dedup_inv lc st"
  shows "dedup_inv lc (deduplicateStep lc t st) \<and>
         result (deduplicateStep lc t st) = dedupe_insert lc t (result st)"
proof (cases "seen st (normalizeText lc t)")
  case None
  have new: "\<forall>p\<in>set (result st). normalizeText lc p \<noteq> normalizeText lc t"
  proof
    fix p assume "p \<in> set (result st)"
    with inv have "seen st (normalizeText lc p) = Some p" by (simp add: dedup_inv_def)
    with None show "normalizeText lc p \<noteq> normalizeText lc t" by auto
  qed
  have step: "deduplicateStep lc t st =
      st\<lparr>seen := (seen st)(normalizeText lc t \<mapsto> t), result := result st @ [t]\<rparr>"
    using None by (simp add: deduplicateStep_def)
  have "dedup_inv lc (st\<lparr>seen := (seen st)(normalizeText lc t \<mapsto> t),
      result := result st @ [t]\<rparr>)"
    unfolding dedup_inv_def
  proof (intro conjI allI)
    show "distinct (map (normalizeText lc) (result (st\<lparr>seen := (seen st)(normalizeText lc t \<mapsto> t),
        result := result st @ [t]\<rparr>)))"
      using inv new by (auto simp: dedup_inv_def)
  next
    fix k u
    show "(seen (st\<lparr>seen := (seen st)(normalizeText lc t \<mapsto> t),
        result := result st @ [t]\<rparr>) k = Some u) =
      (u \<in> set (result (st\<lparr>seen := (seen st)(normalizeText lc t \<mapsto> t),
        result := result st @ [t]\<rparr>)) \<and> normalizeText lc u = k)"
    proof (cases "k = normalizeText lc t")
      case True
      with new show ?thesis by auto
    next
      case False
      with inv show ?thesis by (auto simp: dedup_inv_def)
    qed
  qed
  with step dedupe_insert_new [OF new] show ?thesis by simp
next
  case (Some e)
  with inv have e: "e \<in> set (result st)" "normalizeText lc e = normalizeText lc t"
    and dist: "distinct (map (normalizeText lc) (result st))"
    by (auto simp: dedup_inv_def)
  from dedupe_insert_old [OF dist e]
  obtain i where i: "indexOf (result st) e = Some i" "i < length (result st)"
    "result st ! i = e"
    and ins: "dedupe_insert lc t (result st) =
      (if length t > length e \<or> score_spec t > score_spec e then (result st)[i := t]
       else result st)"
    by auto
  show ?thesis
  proof (cases "length t > length e \<or> score_spec t > score_spec e")
    case False
    then have "deduplicateStep lc t st = st"
      using Some by (simp add: deduplicateStep_def textQualityScore_spec)
    with False ins inv show ?thesis by simp
  next
    case True
    then have step: "deduplicateStep lc t st =
        st\<lparr>result := (result st)[i := t], seen := (seen st)(normalizeText lc t \<mapsto> t)\<rparr>"
      using Some i by (simp add: deduplicateStep_def textQualityScore_spec)
    have keys: "map (normalizeText lc) ((result st)[i := t]) = map (normalizeText lc) (result st)"
      using i e by (simp add: map_update list_update_same_conv)
    have dps: "distinct (result st)" using dist by (simp add: distinct_map)
    have setu: "set ((result st)[i := t]) = insert t (set (result st) - {e})"
      using set_update_distinct [OF dps i(2)] i(3) by simp
    have unique: "p = e" if "p \<in> set (result st)" "normalizeText lc p = normalizeText lc t" for p
      using that e dist by (metis distinct_map inj_onD)
    have "dedup_inv lc (st\<lparr>result := (result st)[i := t],
        seen := (seen st)(normalizeText lc t \<mapsto> t)\<rparr>)"
      unfolding dedup_inv_def
    proof (intro conjI allI)
      show "distinct (map (normalizeText lc) (result (st\<lparr>result := (result st)[i := t],
          seen := (seen st)(normalizeText lc t \<mapsto> t)\<rparr>)))"
        using keys dist by simp
    next
      fix k u
      show "(seen (st\<lparr>result := (result st)[i := t],
          seen := (seen st)(normalizeText lc t \<mapsto> t)\<rparr>) k = Some u) =
        (u \<in> set (result (st\<lparr>result := (result st)[i := t],
          seen := (seen st)(normalizeText lc t \<mapsto> t)\<rparr>)) \<and> normalizeText lc u = k)"
      proof (cases "k = normalizeText lc t")
        case True
        with setu unique show ?thesis by auto
      next
        case False
        have "(seen st k = Some u) = (u \<in> set (result st) \<and> normalizeText lc u = k)"
          using inv by (simp add: dedup_inv_def)
        with False setu e show ?thesis by auto
      qed
    qed
    with step True ins show ?thesis by simp
  qed
qed

lemma fold_deduplicateStep:
  "dedup_inv lc st \<Longrightarrow>
   result (fold (deduplicateStep lc) ts st) = fold (dedupe_insert lc) ts (result st)"
proof (induction ts arbitrary: st)
  case Nil
  then show ?case by simp
next
  case (Cons t ts)
  from deduplicateStep_refines [OF Cons.prems, of t]
  have "dedup_inv lc (deduplicateStep lc t st)"
    and "result (deduplicateStep lc t st) = dedupe_insert lc t (result st)" by simp_all
  with Cons.IH [of "deduplicateStep lc t st"] show ?case by simp
qed

section \<open>The loops of the mapping generator\<close>

lemma dictionary_values: "(k, v) \<in> set dictionary \<Longrightarrow> v \<noteq> []"
  by (auto simp: dictionary_def ascii_def)

lemma prototype_members_ascii: "m \<in> set objectPrototypeMembers \<Longrightarrow> \<not> containsChinese m"
  by (auto simp: objectPrototypeMembers_def ascii_def containsChinese_def isChinese_def)

lemma proto_not_chinese: "\<not> containsChinese (ascii ''__proto__'')"
  by (simp add: ascii_def containsChinese_def isChinese_def)

lemma translateText_phrase:
  assumes "containsChinese p"
  shows "translateText lc p =
    JString (case map_of dictionary p of Some v \<Rightarrow> v | None \<Rightarrow> generatePlaceholder lc p)"
proof (cases "map_of dictionary p")
  case None
  then have "map_of (map (\<lambda>(k, v). (k, JString v)) dictionary) p = None"
    by (simp add: map_of_map)
  moreover have "p \<notin> set objectPrototypeMembers" using assms prototype_members_ascii by blast
  ultimately have "getBuiltinTranslation p = JNull"
    by (simp add: getBuiltinTranslation_def getProperty_def truthy_def)
  with None show ?thesis by (simp add: translateText_def translateWithAPI_def truthy_def)
next
  case (Some v)
  then have "v \<noteq> []" using dictionary_values [of p v] by (auto dest: map_of_SomeD)
  moreover from Some have "map_of (map (\<lambda>(k, v). (k, JString v)) dictionary) p = Some (JString v)"
    by (simp add: map_of_map)
  ultimately have "getBuiltinTranslation p = JString v"
    by (simp add: getBuiltinTranslation_def getProperty_def truthy_def)
  with Some \<open>v \<noteq> []\<close> show ?thesis by (simp add: translateText_def truthy_def)
qed

lemma insertIndexed_map_of:
  "map_of obj key = None \<Longrightarrow> map_of (insertIndexed key v obj) = (map_of obj)(key \<mapsto> v)"
proof (induction obj)
  case Nil
  show ?case by simp
next
  case (Cons p obj)
  obtain k w where p: "p = (k, w)" by (cases p)
  from Cons.prems p have "k \<noteq> key" "map_of obj key = None" by (auto split: if_splits)
  with Cons.IH p show ?case by (auto simp: fun_eq_iff)
qed

lemma insertIndexed_set: "set (insertIndexed key v obj) = insert (key, v) (set obj)"
proof (induction obj)
  case Nil
  show ?case by simp
next
  case (Cons p obj)
  obtain k w where p: "p = (k, w)" by (cases p)
  with Cons show ?case by auto
qed

lemma insertIndexed_keys: "fst ` set (insertIndexed key v obj) = insert key (fst ` set obj)"
  by (simp add: insertIndexed_set)

lemma insertIndexed_distinct:
  "distinct (map fst obj) \<Longrightarrow> key \<notin> fst ` set obj \<Longrightarrow>
   distinct (map fst (insertIndexed key v obj))"
proof (induction obj)
  case Nil
  show ?case by simp
next
  case (Cons p obj)
  obtain k w where p: "p = (k, w)" by (cases p)
  with Cons show ?case using insertIndexed_keys [of key v obj] by auto
qed

lemma setProperty_map_of:
  "key \<noteq> ascii ''__proto__'' \<Longrightarrow> map_of (setProperty obj key v) = (map_of obj)(key \<mapsto> v)"
  by (simp add: setProperty_def insertIndexed_map_of update_conv')

lemma setProperty_keys:
  "key \<noteq> ascii ''__proto__'' \<Longrightarrow> fst ` set (setProperty obj key v) = insert key (fst ` set obj)"
proof -
  have "fst ` set (AList.update key v obj) = insert key (fst ` set obj)"
    using dom_update [of key v obj] by (simp add: dom_map_of_conv_image_fst)
  then show "key \<noteq> ascii ''__proto__'' \<Longrightarrow> ?thesis"
    by (simp add: setProperty_def insertIndexed_keys)
qed

lemma setProperty_distinct:
  "distinct (map fst obj) \<Longrightarrow> distinct (map fst (setProperty obj key v))"
  by (simp add: setProperty_def insertIndexed_distinct distinct_update map_of_eq_None_iff)

lemma fold_setProperty:
  assumes "ascii ''__proto__'' \<notin> set ts"
  shows "map_of (fold (\<lambda>t m. setProperty m t (f t)) ts m0) k =
           (if k \<in> set ts then Some (f k) else map_of m0 k)"
    and "fst ` set (fold (\<lambda>t m. setProperty m t (f t)) ts m0) = set ts \<union> fst ` set m0"
    and "distinct (map fst m0) \<Longrightarrow> distinct (map fst (fold (\<lambda>t m. setProperty m t (f t)) ts m0))"
  using assms
proof (induction ts arbitrary: m0)
  case Nil
  { case 1 show ?case by simp }
  { case 2 show ?case by simp }
  { case 3 then show ?case by simp }
next
  case (Cons t ts)
  { case 1
    from 1 have t: "t \<noteq> ascii ''__proto__''" and ts: "ascii ''__proto__'' \<notin> set ts" by auto
    show ?case using Cons.IH(1) [OF ts, of "setProperty m0 t (f t)"] setProperty_map_of [OF t, of m0 "f t"]
      by auto }
  { case 2
    from 2 have t: "t \<noteq> ascii ''__proto__''" and ts: "ascii ''__proto__'' \<notin> set ts" by auto
    show ?case using Cons.IH(2) [OF ts, of "setProperty m0 t (f t)"] setProperty_keys [OF t, of m0 "f t"]
      by auto }
  { case 3
    from 3 have ts: "ascii ''__proto__'' \<notin> set ts" by auto
    show ?case using Cons.IH(3) [OF _ ts, of "setProperty m0 t (f t)"]
        setProperty_distinct [OF 3(1), of t "f t"]
      by simp }
qed

lemma mapping_loop:
  fixes f :: "jsstring \<Rightarrow> jsvalue"
  assumes "ascii ''__proto__'' \<notin> set ts"
  defines "mapping \<equiv> fold (\<lambda>t m. setProperty m t (f t)) ts []"
  shows "distinct (map fst mapping) \<and> set (map fst mapping) = set ts \<and>
         (distinct ts \<longrightarrow> length mapping = length ts) \<and>
         (\<forall>p\<in>set ts. map_of mapping p = Some (f p))"
proof -
  have d: "distinct (map fst mapping)"
    unfolding mapping_def using fold_setProperty(3) [OF assms(1), of "[]" f] by simp
  have s: "set (map fst mapping) = set ts"
    unfolding mapping_def using fold_setProperty(2) [OF assms(1), of f "[]"] by simp
  have "length mapping = length ts" if "distinct ts"
  proof -
    have "card (set (map fst mapping)) = length (map fst mapping)"
      using d by (rule distinct_card)
    moreover have "card (set ts) = length ts" using that by (rule distinct_card)
    ultimately show ?thesis using s by simp
  qed
  moreover have "\<forall>p\<in>set ts. map_of mapping p = Some (f p)"
    unfolding mapping_def using fold_setProperty(1) [OF assms(1), of f "[]"] by simp
  ultimately show ?thesis using d s by blast
qed

lemma setProperty_if:
  "(if c then setProperty m t a else setProperty m t b) = setProperty m t (if c then a else b)"
  by simp

section \<open>Walking a tree step by step\<close>

lemma visitNode_eval:
  "visitNode this (StringLiteral text) = handleNode this (StringLiteral text)"
  "visitNode this (NoSubstitutionTemplateLiteral text) =
     handleNode this (NoSubstitutionTemplateLiteral text)"
  "visitNode this (TemplateExpression head spans) =
     fold (\<lambda>child this. visitNode this child) spans (handleNode this (TemplateExpression head spans))"
  "visitNode this (TemplateSpan expression literal) =
     visitNode (handleNode this (TemplateSpan expression literal)) expression"
  "visitNode this (JsxText text) = handleNode this (JsxText text)"
  "visitNode this (JsxAttribute name initializer) =
     fold (\<lambda>child this. visitNode this child) (case initializer of None \<Rightarrow> [] | Some i \<Rightarrow> [i])
       (visitNode (handleNode this (JsxAttribute name initializer)) name)"
  "visitNode this (EnumDeclaration name members) =
     fold (\<lambda>child this. visitNode this child) members
       (visitNode (handleNode this (EnumDeclaration name members)) name)"
  "visitNode this (EnumMember name initializer) =
     fold (\<lambda>child this. visitNode this child) (case initializer of None \<Rightarrow> [] | Some i \<Rightarrow> [i])
       (visitNode (handleNode this (EnumMember name initializer)) name)"
  "visitNode this (CallExpression expression arguments) =
     fold (\<lambda>child this. visitNode this child) arguments
       (visitNode (handleNode this (CallExpression expression arguments)) expression)"
  "visitNode this (PropertyAccessExpression expression property) =
     visitNode (handleNode this (PropertyAccessExpression expression property)) expression"
  "visitNode this (PropertyAssignment name valueNode) =
     visitNode (visitNode (handleNode this (PropertyAssignment name valueNode)) name) valueNode"
  "visitNode this (ExpressionStatement expression) =
     visitNode (handleNode this (ExpressionStatement expression)) expression"
  "visitNode this (Identifier text) = handleNode this (Identifier text)"
  "visitNode this (OtherNode children) =
     fold (\<lambda>child this. visitNode this child) children (handleNode this (OtherNode children))"
  by (subst visitNode.simps, simp)+

lemmas walk_defs = extractFromFile_def newASTChineseExtractor_def handleNode_def
  handleStringLiteral_def handleTemplateLiteral_def handleTemplateExpression_def
  handleJSXText_def handleEnumDeclaration_def handleEnumMember_def handleCallExpression_def
  isConsoleCall_def addToSet_def consoleMethods_def ascii_def Let_def

text \<open>A text that is cleaned to one segment, which passes the classifier.\<close>

lemma collectText_single:
  assumes "containsChinese text0" and "ASTChineseExtractor_cleanChineseText text0 = [segment]"
    and "ASTChineseExtractor_isValidChineseText segment"
  shows "collectText this text0 = this\<lparr>chineseTexts := addToSet segment (chineseTexts this)\<rparr>"
  using assms by (simp add: collectText_def)

lemma collectText_none: "\<not> containsChinese text0 \<Longrightarrow> collectText this text0 = this"
  by (simp add: collectText_def)

lemma forEachDescendant_eval:
  "forEachDescendant ancestors (StringLiteral text0) texts =
     fold (\<lambda>(index, child) outcome.
            case outcome of
              Inl error \<Rightarrow> Inl error
            | Inr texts \<Rightarrow>
                (case visitDescendant ((StringLiteral text0) # ancestors) index child texts of
                   Inl error \<Rightarrow> Inl error
                 | Inr texts \<Rightarrow> forEachDescendant ((StringLiteral text0) # ancestors) child texts))
       (enumerate 0 (forEachChild (StringLiteral text0))) (Inr texts)"
  "forEachDescendant ancestors (NoSubstitutionTemplateLiteral text0) texts =
     fold (\<lambda>(index, child) outcome.
            case outcome of
              Inl error \<Rightarrow> Inl error
            | Inr texts \<Rightarrow>
                (case visitDescendant ((NoSubstitutionTemplateLiteral text0) # ancestors) index child texts of
                   Inl error \<Rightarrow> Inl error
                 | Inr texts \<Rightarrow> forEachDescendant ((NoSubstitutionTemplateLiteral text0) # ancestors) child texts))
       (enumerate 0 (forEachChild (NoSubstitutionTemplateLiteral text0))) (Inr texts)"
  "forEachDescendant ancestors (TemplateExpression headText spans) texts =
     fold (\<lambda>(index, child) outcome.
            case outcome of
              Inl error \<Rightarrow> Inl error
            | Inr texts \<Rightarrow>
                (case visitDescendant ((TemplateExpression headText spans) # ancestors) index child texts of
                   Inl error \<Rightarrow> Inl error
                 | Inr texts \<Rightarrow> forEachDescendant ((TemplateExpression headText spans) # ancestors) child texts))
       (enumerate 0 (forEachChild (TemplateExpression headText spans))) (Inr texts)"
  "forEachDescendant ancestors (TemplateSpan expression literal) texts =
     fold (\<lambda>(index, child) outcome.
            case outcome of
              Inl error \<Rightarrow> Inl error
            | Inr texts \<Rightarrow>
                (case visitDescendant ((TemplateSpan expression literal) # ancestors) index child texts of
                   Inl error \<Rightarrow> Inl error
                 | Inr texts \<Rightarrow> forEachDescendant ((TemplateSpan expression literal) # ancestors) child texts))
       (enumerate 0 (forEachChild (TemplateSpan expression literal))) (Inr texts)"
  "forEachDescendant ancestors (JsxText text0) texts =
     fold (\<lambda>(index, child) outcome.
            case outcome of
              Inl error \<Rightarrow> Inl error
            | Inr texts \<Rightarrow>
                (case visitDescendant ((JsxText text0) # ancestors) index child texts of
                   Inl error \<Rightarrow> Inl error
                 | Inr texts \<Rightarrow> forEachDescendant ((JsxText text0) # ancestors) child texts))
       (enumerate 0 (forEachChild (JsxText text0))) (Inr texts)"
  "forEachDescendant ancestors (JsxAttribute name initializer) texts =
     fold (\<lambda>(index, child) outcome.
            case outcome of
              Inl error \<Rightarrow> Inl error
            | Inr texts \<Rightarrow>
                (case visitDescendant ((JsxAttribute name initializer) # ancestors) index child texts of
                   Inl error \<Rightarrow> Inl error
                 | Inr texts \<Rightarrow> forEachDescendant ((JsxAttribute name initializer) # ancestors) child texts))
       (enumerate 0 (forEachChild (JsxAttribute name initializer))) (Inr texts)"
  "forEachDescendant ancestors (EnumDeclaration name members) texts =
     fold (\<lambda>(index, child) outcome.
            case outcome of
              Inl error \<Rightarrow> Inl error
            | Inr texts \<Rightarrow>
                (case visitDescendant ((EnumDeclaration name members) # ancestors) index child texts of
                   Inl error \<Rightarrow> Inl error
                 | Inr texts \<Rightarrow> forEachDescendant ((EnumDeclaration name members) # ancestors) child texts))
       (enumerate 0 (forEachChild (EnumDeclaration name members))) (Inr texts)"
  "forEachDescendant ancestors (EnumMember name initializer) texts =
     fold (\<lambda>(index, child) outcome.
            case outcome of
              Inl error \<Rightarrow> Inl error
            | Inr texts \<Rightarrow>
                (case visitDescendant ((EnumMember name initializer) # ancestors) index child texts of
                   Inl error \<Rightarrow> Inl error
                 | Inr texts \<Rightarrow> forEachDescendant ((EnumMember name initializer) # ancestors) child texts))
       (enumerate 0 (forEachChild (EnumMember name initializer))) (Inr texts)"
  "forEachDescendant ancestors (CallExpression expression arguments) texts =
     fold (\<lambda>(index, child) outcome.
            case outcome of
              Inl error \<Rightarrow> Inl error
            | Inr texts \<Rightarrow>
                (case visitDescendant ((CallExpression expression arguments) # ancestors) index child texts of
                   Inl error \<Rightarrow> Inl error
                 | Inr texts \<Rightarrow> forEachDescendant ((CallExpression expression arguments) # ancestors) child texts))
       (enumerate 0 (forEachChild (CallExpression expression arguments))) (Inr texts)"
  "forEachDescendant ancestors (PropertyAccessExpression expression property) texts =
     fold (\<lambda>(index, child) outcome.
            case outcome of
              Inl error \<Rightarrow> Inl error
            | Inr texts \<Rightarrow>
                (case visitDescendant ((PropertyAccessExpression expression property) # ancestors) index child texts of
                   Inl error \<Rightarrow> Inl error
                 | Inr texts \<Rightarrow> forEachDescendant ((PropertyAccessExpression expression property) # ancestors) child texts))
       (enumerate 0 (forEachChild (PropertyAccessExpression expression property))) (Inr texts)"
  "forEachDescendant ancestors (PropertyAssignment name valueNode) texts =
     fold (\<lambda>(index, child) outcome.
            case outcome of
              Inl error \<Rightarrow> Inl error
            | Inr texts \<Rightarrow>
                (case visitDescendant ((PropertyAssignment name valueNode) # ancestors) index child texts of
                   Inl error \<Rightarrow> Inl error
                 | Inr texts \<Rightarrow> forEachDescendant ((PropertyAssignment name valueNode) # ancestors) child texts))
       (enumerate 0 (forEachChild (PropertyAssignment name valueNode))) (Inr texts)"
  "forEachDescendant ancestors (ExpressionStatement expression) texts =
     fold (\<lambda>(index, child) outcome.
            case outcome of
              Inl error \<Rightarrow> Inl error
            | Inr texts \<Rightarrow>
                (case visitDescendant ((ExpressionStatement expression) # ancestors) index child texts of
                   Inl error \<Rightarrow> Inl error
                 | Inr texts \<Rightarrow> forEachDescendant ((ExpressionStatement expression) # ancestors) child texts))
       (enumerate 0 (forEachChild (ExpressionStatement expression))) (Inr texts)"
  "forEachDescendant ancestors (Identifier text0) texts =
     fold (\<lambda>(index, child) outcome.
            case outcome of
              Inl error \<Rightarrow> Inl error
            | Inr texts \<Rightarrow>
                (case visitDescendant ((Identifier text0) # ancestors) index child texts of
                   Inl error \<Rightarrow> Inl error
                 | Inr texts \<Rightarrow> forEachDescendant ((Identifier text0) # ancestors) child texts))
       (enumerate 0 (forEachChild (Identifier text0))) (Inr texts)"
  "forEachDescendant ancestors (OtherNode children) texts =
     fold (\<lambda>(index, child) outcome.
            case outcome of
              Inl error \<Rightarrow> Inl error
            | Inr texts \<Rightarrow>
                (case visitDescendant ((OtherNode children) # ancestors) index child texts of
                   Inl error \<Rightarrow> Inl error
                 | Inr texts \<Rightarrow> forEachDescendant ((OtherNode children) # ancestors) child texts))
       (enumerate 0 (forEachChild (OtherNode children))) (Inr texts)"
  by (subst forEachDescendant.simps, rule refl)+

lemmas tsmorph_defs = extractChineseFromFile_tsmorph_def visitDescendant_def
  getLiteralValue_templatePart_def
  isInConsoleStatement_def loggingAt_def isLoggingCall_def isStringLiteralAsKey_def

lemmas pattern_defs = extractChineseFromLine_def validSegments_def
  isConsoleLogLine_def consoleMethods_def isEnumUsageLine_def keyedAccessAt_def
  splitInterpolations_def interpolationAt_def enumValueAt_def quotedValueAt_def isQuote_def
  endsValue_def uniqueTexts_def addToSet_def startsWith_def

section \<open>The options of the extractor stay as they are\<close>

lemma fold_options:
  "(\<And>x s. x \<in> set xs \<Longrightarrow> options (f x s) = options s) \<Longrightarrow> options (fold f xs s) = options s"
  by (induction xs arbitrary: s) simp_all

lemma collectText_options: "options (collectText this text0) = options this"
  unfolding collectText_def by (simp add: fold_options)

lemma handleEnumMember_options: "options (handleEnumMember this member) = options this"
  unfolding handleEnumMember_def
  by (simp add: collectText_options Let_def split: node.splits option.splits)

lemma handleNode_options: "options (handleNode this node) = options this"
  unfolding handleNode_def handleStringLiteral_def handleTemplateLiteral_def
    handleTemplateExpression_def handleJSXText_def handleEnumDeclaration_def
    handleCallExpression_def
  by (simp add: collectText_options handleEnumMember_options fold_options split: node.splits)

lemma visitNode_options: "options (visitNode this node) = options this"
proof (induction this node rule: visitNode.induct)
  case (1 this node)
  have "options (fold (\<lambda>child this. visitNode this child) (forEachChild node)
      (handleNode this node)) = options (handleNode this node)"
    by (rule fold_options) (rule "1.IH")
  then show ?case by (subst visitNode.simps) (simp add: handleNode_options)
qed

section \<open>The assignment expression of the pattern-based extractor\<close>


lemma takeWhile_stop: "xs = [] \<or> \<not> P (hd xs) \<Longrightarrow> takeWhile P xs = []"
  by (cases xs) auto















section \<open>Template literals on a line\<close>

lemma containsSubstring_infix: "k \<noteq> [] \<Longrightarrow> containsSubstring k (a @ k @ b)"
proof (induction a)
  case Nil
  then obtain c cs where "k @ b = c # cs" by (cases k) auto
  then show ?case using Nil by (metis append_Nil append_eq_conv_conj containsSubstring.simps(2))
next
  case (Cons x a)
  then show ?case by simp
qed

lemma dropWhile_until:
  "q \<notin> set xs \<Longrightarrow> dropWhile (\<lambda>c. c \<noteq> q) (xs @ q # ys) = q # ys"
  by (induction xs) auto

lemma takeWhile_until:
  "q \<notin> set xs \<Longrightarrow> takeWhile (\<lambda>c. c \<noteq> q) (xs @ q # ys) = xs"
  by (induction xs) auto

lemma interpolationAt_marker:
  "0x7D \<notin> set e \<Longrightarrow> interpolationAt ([0x24, 0x7B] @ e @ [0x7D] @ s) = Some s"
  by (simp add: interpolationAt_def dropWhile_until)

lemma interpolationAt_no_dollar: "c \<noteq> 0x24 \<Longrightarrow> interpolationAt (c # cs) = None"
  by (simp add: interpolationAt_def split: list.splits)

lemma splitInterpolationsFrom_literal:
  "0x24 \<notin> set literal \<Longrightarrow>
   splitInterpolationsFrom piece (literal @ s) = splitInterpolationsFrom (rev literal @ piece) s"
proof (induction literal arbitrary: piece)
  case Nil
  show ?case by simp
next
  case (Cons c literal)
  then have "interpolationAt (c # literal @ s) = None" by (simp add: interpolationAt_no_dollar)
  with Cons show ?case by simp
qed

lemma splitInterpolationsFrom_interpolate:
  "\<forall>literal\<in>set (head # map snd spans). 0x24 \<notin> set literal \<Longrightarrow>
   \<forall>e\<in>set (map fst spans). 0x7D \<notin> set e \<Longrightarrow>
   splitInterpolationsFrom piece (interpolate head spans) = (rev piece @ head) # map snd spans"
proof (induction spans arbitrary: piece head)
  case Nil
  then have "splitInterpolationsFrom piece (head @ []) = splitInterpolationsFrom (rev head @ piece) []"
    by (intro splitInterpolationsFrom_literal) simp
  then show ?case by simp
next
  case (Cons span spans)
  obtain e following where span: "span = (e, following)" by (cases span)
  have h: "0x24 \<notin> set head" and e: "0x7D \<notin> set e" using Cons.prems span by auto
  have "splitInterpolationsFrom piece (interpolate head (span # spans)) =
      splitInterpolationsFrom (rev head @ piece)
        ([0x24, 0x7B] @ e @ [0x7D] @ interpolate following spans)"
    using splitInterpolationsFrom_literal [OF h] by (simp add: span)
  also have "\<dots> = rev (rev head @ piece) # splitInterpolationsFrom [] (interpolate following spans)"
    using interpolationAt_marker [OF e, of "interpolate following spans"] by simp
  also have "splitInterpolationsFrom [] (interpolate following spans) = following # map snd spans"
    using Cons.IH [of following "[]"] Cons.prems span by simp
  finally show ?case by (simp add: span)
qed

lemma splitInterpolations_interpolate:
  "\<forall>literal\<in>set (head # map snd spans). 0x24 \<notin> set literal \<Longrightarrow>
   \<forall>e\<in>set (map fst spans). 0x7D \<notin> set e \<Longrightarrow>
   splitInterpolations (interpolate head spans) = head # map snd spans"
  using splitInterpolationsFrom_interpolate [of head spans "[]"]
  by (simp add: splitInterpolations_def)

lemma interpolate_has_marker: "spans \<noteq> [] \<Longrightarrow> containsSubstring [0x24, 0x7B] (interpolate head spans)"
proof (cases spans)
  case Nil
  assume "spans \<noteq> []"
  with Nil show ?thesis by simp
next
  case (Cons span rest)
  obtain e following where "span = (e, following)" by (cases span)
  with Cons show ?thesis
    using containsSubstring_infix [of "[0x24, 0x7B]" head "e @ [0x7D] @ interpolate following rest"]
    by simp
qed

lemma literal_subset:
  "literal \<in> set (head # map snd spans) \<Longrightarrow> set literal \<subseteq> set (interpolate head spans)"
  by (induction head spans rule: interpolate.induct) auto

lemma quotedSpans_absent: "q \<notin> set s \<Longrightarrow> quotedSpans q s = []"
proof -
  assume "q \<notin> set s"
  then have "dropWhile (\<lambda>c. c \<noteq> q) s = []" by auto
  then show ?thesis by (subst quotedSpans.simps) (simp only: list.case)
qed

lemma quotedSpans_single:
  assumes "q \<notin> set pre" "q \<notin> set content" "q \<notin> set post"
  shows "quotedSpans q (pre @ q # content @ q # post) =
           (if containsChinese content then [content] else [])"
proof -
  have d1: "dropWhile (\<lambda>c. c \<noteq> q) (pre @ q # content @ q # post) = q # content @ q # post"
    using assms(1) by (rule dropWhile_until)
  have d2: "dropWhile (\<lambda>c. c \<noteq> q) (content @ q # post) = q # post"
    using assms(2) by (rule dropWhile_until)
  have t2: "takeWhile (\<lambda>c. c \<noteq> q) (content @ q # post) = content"
    using assms(2) by (rule takeWhile_until)
  have step: "quotedSpans q (pre @ q # content @ q # post) =
      (if containsChinese content then content # quotedSpans q post
       else quotedSpans q (q # post))"
    by (subst quotedSpans.simps) (simp only: d1 d2 t2 list.case)
  have d3: "dropWhile (\<lambda>c. c \<noteq> q) (q # post) = q # post" by simp
  have d4: "dropWhile (\<lambda>c. c \<noteq> q) post = []" using assms(3) by auto
  have "quotedSpans q (q # post) = []"
    by (subst quotedSpans.simps) (simp only: d3 d4 list.case)
  with step quotedSpans_absent [OF assms(3)] show ?thesis by simp
qed

lemma stripSymbols_chars: "c \<in> set (stripSymbols s) \<Longrightarrow> c = 0x20 \<or> c \<in> set s"
  unfolding stripSymbols_def by (auto dest!: replaceClass_chars replaceEmoji_chars)

lemma clean_without_chinese: "\<not> containsChinese s \<Longrightarrow> cleanChineseText s = []"
proof -
  assume no: "\<not> containsChinese s"
  have "\<not> containsChinese (trimPunctuation (stripSymbols s))"
  proof
    assume "containsChinese (trimPunctuation (stripSymbols s))"
    then obtain c where c: "c \<in> set (trimPunctuation (stripSymbols s))" "isChinese c"
      by (auto simp: containsChinese_def list_ex_iff)
    then have "c \<in> set (stripSymbols s)" using trimPunctuation_subset by blast
    then have "c = 0x20 \<or> c \<in> set s" by (rule stripSymbols_chars)
    with c(2) no show False by (auto simp: containsChinese_def list_ex_iff isChinese_def)
  qed
  then show ?thesis by (simp add: cleanChineseText_def Let_def)
qed

lemma validSegments_without_chinese: "\<not> containsChinese s \<Longrightarrow> validSegments (trim s) = []"
proof -
  assume "\<not> containsChinese s"
  then have "\<not> containsChinese (trim s)"
    using trim_subset [of s] by (auto simp: containsChinese_def list_ex_iff)
  then show ?thesis by (simp add: validSegments_def clean_without_chinese)
qed

lemma fold_append_concat: "fold (\<lambda>x acc. acc @ g x) xs acc = acc @ concat (map g xs)"
  by (induction xs arbitrary: acc) simp_all

section \<open>The literal parts of a template\<close>

text \<open>
  The pattern-based extractor on a line that holds one template literal with
  interpolations and no quote character besides its two backticks (no dollar sign in
  the literal parts, no closing brace in the expressions, and the line is no logging
  call): the phrases of the literal parts, part by part and in order, whatever the
  interpolated expressions are.
\<close>

lemma template_segments_independent:
  assumes spans: "spans \<noteq> []"
    and lits: "\<forall>literal\<in>set (head # map snd spans). 0x24 \<notin> set literal"
    and exprs: "\<forall>e\<in>set (map fst spans). 0x7D \<notin> set e"
    and quotes: "\<forall>c\<in>set (pre @ interpolate head spans @ post). \<not> isQuote c"
    and console: "\<not> isConsoleLogLine (pre @ 0x60 # interpolate head spans @ 0x60 # post)"
  shows "extractChineseFromLine (pre @ 0x60 # interpolate head spans @ 0x60 # post) =
           concat (map (\<lambda>literal. validSegments (trim literal)) (head # map snd spans))"
proof -
  define content where "content = interpolate head spans"
  define line where "line = pre @ 0x60 # content @ 0x60 # post"
  have nq: "q \<notin> set pre" "q \<notin> set content" "q \<notin> set post" if "isQuote q" for q
    using quotes that by (auto simp: content_def)
  have single: "quotedSpans 0x27 line = []"
    using nq [of "0x27"] by (intro quotedSpans_absent) (auto simp: line_def isQuote_def)
  have double: "quotedSpans 0x22 line = []"
    using nq [of "0x22"] by (intro quotedSpans_absent) (auto simp: line_def isQuote_def)
  have template: "quotedSpans 0x60 line = (if containsChinese content then [content] else [])"
    unfolding line_def using nq [of "0x60"] by (intro quotedSpans_single) (auto simp: isQuote_def)
  have marker: "containsSubstring [0x24, 0x7B] content"
    unfolding content_def using spans by (rule interpolate_has_marker)
  have split: "splitInterpolations content = head # map snd spans"
    unfolding content_def using lits exprs by (rule splitInterpolations_interpolate)
  have line: "extractChineseFromLine line =
      (if containsChinese content
       then concat (map (\<lambda>literal. validSegments (trim literal)) (head # map snd spans))
       else [])"
    using console single double template marker split
    unfolding extractChineseFromLine_def line_def [symmetric] content_def [symmetric]
    by (simp add: fold_append_concat Let_def del: fold_simps)
  show ?thesis
  proof (cases "containsChinese content")
    case True
    with line show ?thesis by (simp add: line_def content_def)
  next
    case False
    have "validSegments (trim literal) = []" if "literal \<in> set (head # map snd spans)" for literal
    proof -
      have "set literal \<subseteq> set content" unfolding content_def using that by (rule literal_subset)
      with False have "\<not> containsChinese literal"
        by (auto simp: containsChinese_def list_ex_iff)
      then show ?thesis by (rule validSegments_without_chinese)
    qed
    then have "concat (map (\<lambda>literal. validSegments (trim literal)) (head # map snd spans)) = []"
      by (simp del: list.map set_simps)
    with line False show ?thesis by (simp add: line_def content_def)
  qed
qed

text \<open>
  \<^verbatim>\<open>handleTemplateExpression\<close> of the class \<^verbatim>\<open>ASTChineseExtractor\<close> collects from the
  head and from the literal of each span, in order, and from nothing else.
\<close>

lemma handleTemplateExpression_literals:
  "handleTemplateExpression this
     (TemplateExpression head (map (\<lambda>(expression, literal). TemplateSpan expression literal) spans)) =
   fold (\<lambda>literal this. collectText this literal) (head # map snd spans) this"
proof -
  have "fold (\<lambda>span this. case span of TemplateSpan expression literal \<Rightarrow> collectText this literal
            | _ \<Rightarrow> this)
          (map (\<lambda>(expression, literal). TemplateSpan expression literal) spans) acc =
        fold (\<lambda>literal this. collectText this literal) (map snd spans) acc" for acc
    by (induction spans arbitrary: acc) (simp_all add: case_prod_beta)
  then show ?thesis by (simp add: handleTemplateExpression_def)
qed

section \<open>Logging calls\<close>

text \<open>
  Claim C1, at the statement \<^verbatim>\<open>console.log('...')\<close> with the six ideographs U+8FD9
  U+662F U+8C03 U+8BD5 U+4FE1 U+606F between the quotes, and the default options. The
  class \<^verbatim>\<open>ASTChineseExtractor\<close> returns the phrase: \<^verbatim>\<open>handleCallExpression\<close>
  recognises the call and returns, but \<^verbatim>\<open>visitNode\<close> goes on to the children of the
  call all the same, and the handler of string literals collects the argument. The
  extractor over ts-morph and the pattern-based extractor return nothing for it.
\<close>

theorem console_argument_extracted_by_tree_walk:
  "snd (extractFromFile newASTChineseExtractor
      (Inr (OtherNode [ExpressionStatement
        (CallExpression (PropertyAccessExpression (Identifier (ascii ''console'')) (ascii ''log''))
          [StringLiteral [0x8FD9, 0x662F, 0x8C03, 0x8BD5, 0x4FE1, 0x606F]])]))) =
     [[0x8FD9, 0x662F, 0x8C03, 0x8BD5, 0x4FE1, 0x606F]] \<and>
   extractChineseFromFile_tsmorph
      (Inr (OtherNode [ExpressionStatement
        (CallExpression (PropertyAccessExpression (Identifier (ascii ''console'')) (ascii ''log''))
          [StringLiteral [0x8FD9, 0x662F, 0x8C03, 0x8BD5, 0x4FE1, 0x606F]])])) = [] \<and>
   extractChineseFromFile
      (Inr (ascii ''console.log('' @ [0x27, 0x8FD9, 0x662F, 0x8C03, 0x8BD5, 0x4FE1, 0x606F, 0x27]
            @ ascii '')'')) = []"
proof (intro conjI)
  have collect: "collectText this [0x8FD9, 0x662F, 0x8C03, 0x8BD5, 0x4FE1, 0x606F] =
      this\<lparr>chineseTexts :=
        addToSet [0x8FD9, 0x662F, 0x8C03, 0x8BD5, 0x4FE1, 0x606F] (chineseTexts this)\<rparr>" for this
    by (rule collectText_single) (simp_all add: clean_defs valid_defs string_defs class_defs)
  show "snd (extractFromFile newASTChineseExtractor
      (Inr (OtherNode [ExpressionStatement
        (CallExpression (PropertyAccessExpression (Identifier (ascii ''console'')) (ascii ''log''))
          [StringLiteral [0x8FD9, 0x662F, 0x8C03, 0x8BD5, 0x4FE1, 0x606F]])]))) =
     [[0x8FD9, 0x662F, 0x8C03, 0x8BD5, 0x4FE1, 0x606F]]"
    by (simp add: walk_defs visitNode_eval collect)
  show "extractChineseFromFile_tsmorph
      (Inr (OtherNode [ExpressionStatement
        (CallExpression (PropertyAccessExpression (Identifier (ascii ''console'')) (ascii ''log''))
          [StringLiteral [0x8FD9, 0x662F, 0x8C03, 0x8BD5, 0x4FE1, 0x606F]])])) = []"
    by (simp add: tsmorph_defs forEachDescendant_eval trim_def isSpace_def ascii_def)
  define content where "content = ascii ''console.log('' @
      [0x27, 0x8FD9, 0x662F, 0x8C03, 0x8BD5, 0x4FE1, 0x606F, 0x27] @ ascii '')''"
  have line: "splitLines content = [content]"
    unfolding content_def by (subst splitLines.simps) (simp add: ascii_def)
  have console: "isConsoleLogLine content"
    unfolding content_def
    by (simp add: isConsoleLogLine_def consoleMethods_def startsWith_def startsWithClass_def
        trim_def isSpace_def ascii_def)
  have none: "enumValueMatches content = []"
    unfolding content_def
    by (simp add: enumValueAt_def quotedValueAt_def isQuote_def startsWithClass_def ascii_def
        class_defs)
  have "extractChineseFromFile (Inr content) = []"
    unfolding extractChineseFromFile_def
    by (simp add: line console none extractChineseFromLine_def uniqueTexts_def Let_def)
  then show "extractChineseFromFile
      (Inr (ascii ''console.log('' @ [0x27, 0x8FD9, 0x662F, 0x8C03, 0x8BD5, 0x4FE1, 0x606F, 0x27]
            @ ascii '')'')) = []"
    unfolding content_def .
qed

section \<open>The deduplicator keeps one phrase per key, the better one\<close>

text \<open>
  Claim C2. \<^verbatim>\<open>deduplicateTexts\<close> computes what the specification describes. The
  key that it computes for a phrase is the key of the specification (\<open>key_spec\<close>): the
  phrase trimmed, runs of white space collapsed to one space, the common Chinese
  punctuation removed, lower case. It keeps the first phrase of each key at its
  position, and on a later phrase of the same key it puts the new phrase in the place
  of the stored one exactly when the new phrase is longer or has the higher score
  (\<open>dedupe_spec\<close>, which compares the keys of the specification). The score is the
  length capped at 20, plus 5 for a full stop, question mark or exclamation mark at the
  end, plus 2 for a comma or enumeration comma anywhere, minus 3 for one at the start,
  minus 1 for one at the end (\<open>score_spec\<close>). The search of the stored phrase by
  \<^verbatim>\<open>indexOf\<close> always finds it, at the position where it was put.
\<close>

theorem deduplicateTexts_scored:
  "deduplicateTexts toLowerCase texts = dedupe_spec toLowerCase texts \<and>
   normalizeText toLowerCase phrase = key_spec toLowerCase phrase \<and>
   textQualityScore phrase = score_spec phrase"
proof -
  have "dedup_inv toLowerCase \<lparr>seen = Map.empty, result = []\<rparr>" by (simp add: dedup_inv_def)
  from fold_deduplicateStep [OF this, of texts] show ?thesis
    by (simp add: deduplicateTexts_def dedupe_spec_def textQualityScore_spec normalizeText_key)
qed

section \<open>The classifier compares the two counts strictly\<close>

text \<open>
  Claim C3, as the code has it. The classifier of the tree-based extractor rejects
  every string with strictly more Latin letters than ideographs. A string with as many
  Latin letters as ideographs is not rejected for that reason, and the classifier of
  the pattern-based extractor does not compare the counts at all.
\<close>

theorem majority_script_filter_strict:
  "chineseCount text < englishCount text \<Longrightarrow> \<not> ASTChineseExtractor_isValidChineseText text"
  by (simp add: ASTChineseExtractor_isValidChineseText_def)

text \<open>The string \<^verbatim>\<open>the \<close> followed by U+7684 has three Latin letters and one ideograph.\<close>

theorem majority_script_filter_strict_witness:
  "chineseCount (ascii ''the '' @ [0x7684]) < englishCount (ascii ''the '' @ [0x7684]) \<and>
   \<not> ASTChineseExtractor_isValidChineseText (ascii ''the '' @ [0x7684])"
proof -
  have more: "chineseCount (ascii ''the '' @ [0x7684]) < englishCount (ascii ''the '' @ [0x7684])"
    by (simp add: chineseCount_def englishCount_def ascii_def class_defs)
  from more majority_script_filter_strict [OF more] show ?thesis by simp
qed

text \<open>
  The letter \<^verbatim>\<open>a\<close> followed by U+7684 has one ideograph and one Latin letter: the
  count of ideographs does not exceed the count of Latin letters, and the classifier of
  the tree-based extractor accepts the string. The classifier of the pattern-based
  extractor accepts even the string with three Latin letters and one ideograph.
\<close>

theorem majority_script_filter_counterexample:
  "\<not> englishCount [0x61, 0x7684] < chineseCount [0x61, 0x7684] \<and>
   ASTChineseExtractor_isValidChineseText [0x61, 0x7684] \<and>
   chineseCount (ascii ''the '' @ [0x7684]) < englishCount (ascii ''the '' @ [0x7684]) \<and>
   isValidChineseText (ascii ''the '' @ [0x7684])"
  by (simp add: valid_defs string_defs class_defs)

section \<open>Names of enum members\<close>

text \<open>
  Claim C4, at the declaration \<^verbatim>\<open>enum Status { K = 'V' }\<close> with the value U+4EFB
  U+52A1 U+5DF2 U+5B8C U+6210 and the name U+5F85 U+5904 U+7406, and the default
  options. With the name written as an identifier, the class \<^verbatim>\<open>ASTChineseExtractor\<close>
  returns the value only. With the name written as a string literal it returns the
  value and the name: no handler looks at the position of a string literal. The
  extractor over ts-morph, which tests the position, returns the value only.
\<close>

theorem quoted_key_extracted_by_tree_walk:
  "snd (extractFromFile newASTChineseExtractor
      (Inr (OtherNode [EnumDeclaration (Identifier (ascii ''Status''))
        [EnumMember (Identifier [0x5F85, 0x5904, 0x7406])
           (Some (StringLiteral [0x4EFB, 0x52A1, 0x5DF2, 0x5B8C, 0x6210]))]]))) =
     [[0x4EFB, 0x52A1, 0x5DF2, 0x5B8C, 0x6210]] \<and>
   snd (extractFromFile newASTChineseExtractor
      (Inr (OtherNode [EnumDeclaration (Identifier (ascii ''Status''))
        [EnumMember (StringLiteral [0x5F85, 0x5904, 0x7406])
           (Some (StringLiteral [0x4EFB, 0x52A1, 0x5DF2, 0x5B8C, 0x6210]))]]))) =
     [[0x4EFB, 0x52A1, 0x5DF2, 0x5B8C, 0x6210], [0x5F85, 0x5904, 0x7406]] \<and>
   extractChineseFromFile_tsmorph
      (Inr (OtherNode [EnumDeclaration (Identifier (ascii ''Status''))
        [EnumMember (StringLiteral [0x5F85, 0x5904, 0x7406])
           (Some (StringLiteral [0x4EFB, 0x52A1, 0x5DF2, 0x5B8C, 0x6210]))]])) =
     [[0x4EFB, 0x52A1, 0x5DF2, 0x5B8C, 0x6210]]"
proof (intro conjI)
  have val: "collectText this [0x4EFB, 0x52A1, 0x5DF2, 0x5B8C, 0x6210] =
      this\<lparr>chineseTexts :=
        addToSet [0x4EFB, 0x52A1, 0x5DF2, 0x5B8C, 0x6210] (chineseTexts this)\<rparr>" for this
    by (rule collectText_single) (simp_all add: clean_defs valid_defs string_defs class_defs)
  have key: "collectText this [0x5F85, 0x5904, 0x7406] =
      this\<lparr>chineseTexts := addToSet [0x5F85, 0x5904, 0x7406] (chineseTexts this)\<rparr>" for this
    by (rule collectText_single) (simp_all add: clean_defs valid_defs string_defs class_defs)
  show "snd (extractFromFile newASTChineseExtractor
      (Inr (OtherNode [EnumDeclaration (Identifier (ascii ''Status''))
        [EnumMember (Identifier [0x5F85, 0x5904, 0x7406])
           (Some (StringLiteral [0x4EFB, 0x52A1, 0x5DF2, 0x5B8C, 0x6210]))]]))) =
     [[0x4EFB, 0x52A1, 0x5DF2, 0x5B8C, 0x6210]]"
    by (simp add: walk_defs visitNode_eval val key)
  show "snd (extractFromFile newASTChineseExtractor
      (Inr (OtherNode [EnumDeclaration (Identifier (ascii ''Status''))
        [EnumMember (StringLiteral [0x5F85, 0x5904, 0x7406])
           (Some (StringLiteral [0x4EFB, 0x52A1, 0x5DF2, 0x5B8C, 0x6210]))]]))) =
     [[0x4EFB, 0x52A1, 0x5DF2, 0x5B8C, 0x6210], [0x5F85, 0x5904, 0x7406]]"
    by (simp add: walk_defs visitNode_eval val key)
  have valid: "isValidChineseText [0x4EFB, 0x52A1, 0x5DF2, 0x5B8C, 0x6210]"
    by (simp add: valid_defs string_defs class_defs)
  show "extractChineseFromFile_tsmorph
      (Inr (OtherNode [EnumDeclaration (Identifier (ascii ''Status''))
        [EnumMember (StringLiteral [0x5F85, 0x5904, 0x7406])
           (Some (StringLiteral [0x4EFB, 0x52A1, 0x5DF2, 0x5B8C, 0x6210]))]])) =
     [[0x4EFB, 0x52A1, 0x5DF2, 0x5B8C, 0x6210]]"
    by (simp add: tsmorph_defs forEachDescendant_eval valid)
qed

section \<open>Template literals with interpolations\<close>

text \<open>
  Claim C5, at the template of the specification: the head U+7528 U+6237 U+3010, the
  expression \<^verbatim>\<open>a\<close>, the middle part U+3011 U+5DF2 U+5728 U+5206 U+652F U+3010, the
  expression \<^verbatim>\<open>b\<close> and the tail U+3011 U+4E2D U+5B58 U+5728. The pattern-based
  extractor, on the line \<^verbatim>\<open>const m = `...`;\<close>, and the class \<^verbatim>\<open>ASTChineseExtractor\<close>
  return the three phrases of the three literal parts. The extractor over ts-morph
  returns nothing: the branch of the template expression calls a method that the head
  of a template does not have, and the exception, caught by
  \<^verbatim>\<open>extractChineseFromFile\<close>, empties the result of the whole file. A string literal
  U+6807 U+9898 before the template is returned from a file without the template and is
  lost from the file with it.
\<close>

theorem template_expression_aborts_tsmorph_extractor:
  "extractChineseFromLine
     (ascii ''const m = '' @ [0x60, 0x7528, 0x6237, 0x3010] @ ascii ''${a}'' @
      [0x3011, 0x5DF2, 0x5728, 0x5206, 0x652F, 0x3010] @ ascii ''${b}'' @
      [0x3011, 0x4E2D, 0x5B58, 0x5728, 0x60] @ ascii '';'') =
     [[0x7528, 0x6237], [0x5DF2, 0x5728, 0x5206, 0x652F], [0x4E2D, 0x5B58, 0x5728]] \<and>
   snd (extractFromFile newASTChineseExtractor
      (Inr (OtherNode [TemplateExpression [0x7528, 0x6237, 0x3010]
        [TemplateSpan (Identifier (ascii ''a'')) [0x3011, 0x5DF2, 0x5728, 0x5206, 0x652F, 0x3010],
         TemplateSpan (Identifier (ascii ''b'')) [0x3011, 0x4E2D, 0x5B58, 0x5728]]]))) =
     [[0x7528, 0x6237], [0x5DF2, 0x5728, 0x5206, 0x652F], [0x4E2D, 0x5B58, 0x5728]] \<and>
   extractChineseFromFile_tsmorph
      (Inr (OtherNode [TemplateExpression [0x7528, 0x6237, 0x3010]
        [TemplateSpan (Identifier (ascii ''a'')) [0x3011, 0x5DF2, 0x5728, 0x5206, 0x652F, 0x3010],
         TemplateSpan (Identifier (ascii ''b'')) [0x3011, 0x4E2D, 0x5B58, 0x5728]]])) = [] \<and>
   extractChineseFromFile_tsmorph (Inr (OtherNode [StringLiteral [0x6807, 0x9898]])) =
     [[0x6807, 0x9898]] \<and>
   extractChineseFromFile_tsmorph
      (Inr (OtherNode [StringLiteral [0x6807, 0x9898],
        TemplateExpression [0x7528, 0x6237, 0x3010]
        [TemplateSpan (Identifier (ascii ''a'')) [0x3011, 0x5DF2, 0x5728, 0x5206, 0x652F, 0x3010],
         TemplateSpan (Identifier (ascii ''b'')) [0x3011, 0x4E2D, 0x5B58, 0x5728]]])) = []"
proof (intro conjI)
  define spans :: "(jsstring \<times> jsstring) list" where
    "spans = [(ascii ''a'', [0x3011, 0x5DF2, 0x5728, 0x5206, 0x652F, 0x3010]),
      (ascii ''b'', [0x3011, 0x4E2D, 0x5B58, 0x5728])]"
  have spans: "spans \<noteq> []" by (simp add: spans_def)
  have lits: "\<forall>literal\<in>set ([0x7528, 0x6237, 0x3010] # map snd spans). 0x24 \<notin> set literal"
    by (simp add: spans_def)
  have exprs: "\<forall>e\<in>set (map fst spans). 0x7D \<notin> set e" by (simp add: spans_def ascii_def)
  have quotes: "\<forall>c\<in>set (ascii ''const m = '' @ interpolate [0x7528, 0x6237, 0x3010] spans @
      ascii '';''). \<not> isQuote c"
    by (simp add: spans_def ascii_def isQuote_def)
  have console: "\<not> isConsoleLogLine (ascii ''const m = '' @ 0x60 #
      interpolate [0x7528, 0x6237, 0x3010] spans @ 0x60 # ascii '';'')"
    by (simp add: spans_def isConsoleLogLine_def consoleMethods_def startsWith_def
        startsWithClass_def trim_def isSpace_def ascii_def)
  have v1: "validSegments (trim [0x7528, 0x6237, 0x3010]) = [[0x7528, 0x6237]]"
    by (simp add: validSegments_def clean_defs valid_defs string_defs class_defs)
  have v2: "validSegments (trim [0x3011, 0x5DF2, 0x5728, 0x5206, 0x652F, 0x3010]) =
      [[0x5DF2, 0x5728, 0x5206, 0x652F]]"
    by (simp add: validSegments_def clean_defs valid_defs string_defs class_defs)
  have v3: "validSegments (trim [0x3011, 0x4E2D, 0x5B58, 0x5728]) = [[0x4E2D, 0x5B58, 0x5728]]"
    by (simp add: validSegments_def clean_defs valid_defs string_defs class_defs)
  have groups: "concat (map (\<lambda>literal. validSegments (trim literal))
      ([0x7528, 0x6237, 0x3010] # map snd spans)) =
      [[0x7528, 0x6237], [0x5DF2, 0x5728, 0x5206, 0x652F], [0x4E2D, 0x5B58, 0x5728]]"
    by (simp add: spans_def v1 v2 v3)
  have line: "ascii ''const m = '' @ [0x60, 0x7528, 0x6237, 0x3010] @ ascii ''${a}'' @
      [0x3011, 0x5DF2, 0x5728, 0x5206, 0x652F, 0x3010] @ ascii ''${b}'' @
      [0x3011, 0x4E2D, 0x5B58, 0x5728, 0x60] @ ascii '';'' =
      ascii ''const m = '' @ 0x60 # interpolate [0x7528, 0x6237, 0x3010] spans @ 0x60 # ascii '';''"
    by (simp add: spans_def ascii_def)
  from template_segments_independent [OF spans lits exprs quotes console] groups
  show "extractChineseFromLine
     (ascii ''const m = '' @ [0x60, 0x7528, 0x6237, 0x3010] @ ascii ''${a}'' @
      [0x3011, 0x5DF2, 0x5728, 0x5206, 0x652F, 0x3010] @ ascii ''${b}'' @
      [0x3011, 0x4E2D, 0x5B58, 0x5728, 0x60] @ ascii '';'') =
     [[0x7528, 0x6237], [0x5DF2, 0x5728, 0x5206, 0x652F], [0x4E2D, 0x5B58, 0x5728]]"
    unfolding line by simp
next
  have head: "collectText this [0x7528, 0x6237, 0x3010] =
      this\<lparr>chineseTexts := addToSet [0x7528, 0x6237] (chineseTexts this)\<rparr>" for this
    by (rule collectText_single) (simp_all add: clean_defs valid_defs string_defs class_defs)
  have middle: "collectText this [0x3011, 0x5DF2, 0x5728, 0x5206, 0x652F, 0x3010] =
      this\<lparr>chineseTexts := addToSet [0x5DF2, 0x5728, 0x5206, 0x652F] (chineseTexts this)\<rparr>"
    for this
    by (rule collectText_single) (simp_all add: clean_defs valid_defs string_defs class_defs)
  have tail: "collectText this [0x3011, 0x4E2D, 0x5B58, 0x5728] =
      this\<lparr>chineseTexts := addToSet [0x4E2D, 0x5B58, 0x5728] (chineseTexts this)\<rparr>" for this
    by (rule collectText_single) (simp_all add: clean_defs valid_defs string_defs class_defs)
  show "snd (extractFromFile newASTChineseExtractor
      (Inr (OtherNode [TemplateExpression [0x7528, 0x6237, 0x3010]
        [TemplateSpan (Identifier (ascii ''a'')) [0x3011, 0x5DF2, 0x5728, 0x5206, 0x652F, 0x3010],
         TemplateSpan (Identifier (ascii ''b'')) [0x3011, 0x4E2D, 0x5B58, 0x5728]]]))) =
     [[0x7528, 0x6237], [0x5DF2, 0x5728, 0x5206, 0x652F], [0x4E2D, 0x5B58, 0x5728]]"
    by (simp add: walk_defs visitNode_eval head middle tail)
next
  show "extractChineseFromFile_tsmorph
      (Inr (OtherNode [TemplateExpression [0x7528, 0x6237, 0x3010]
        [TemplateSpan (Identifier (ascii ''a'')) [0x3011, 0x5DF2, 0x5728, 0x5206, 0x652F, 0x3010],
         TemplateSpan (Identifier (ascii ''b'')) [0x3011, 0x4E2D, 0x5B58, 0x5728]]])) = []"
    by (simp add: tsmorph_defs forEachDescendant_eval)
next
  have valid: "isValidChineseText [0x6807, 0x9898]"
    by (simp add: valid_defs string_defs class_defs)
  show "extractChineseFromFile_tsmorph (Inr (OtherNode [StringLiteral [0x6807, 0x9898]])) =
     [[0x6807, 0x9898]]"
    by (simp add: tsmorph_defs forEachDescendant_eval valid)
  show "extractChineseFromFile_tsmorph
      (Inr (OtherNode [StringLiteral [0x6807, 0x9898],
        TemplateExpression [0x7528, 0x6237, 0x3010]
        [TemplateSpan (Identifier (ascii ''a'')) [0x3011, 0x5DF2, 0x5728, 0x5206, 0x652F, 0x3010],
         TemplateSpan (Identifier (ascii ''b'')) [0x3011, 0x4E2D, 0x5B58, 0x5728]]])) = []"
    by (simp add: tsmorph_defs forEachDescendant_eval valid)
qed

section \<open>Cleaning is a fixed point on cleaned phrases\<close>

text \<open>
  Claim C6. The phrases of the specification are the results of the cleaner: every
  phrase that \<^verbatim>\<open>cleanChineseText\<close> returns, for whatever text, is cleaned to itself,
  as the only element of the result. Every such phrase passes the classifier, so the
  condition of the specification, a phrase of the cleaner that has passed
  classification, leaves none of them out.
\<close>

theorem clean_fixed_point_on_cleaned:
  "p \<in> set (ASTChineseExtractor_cleanChineseText text) \<Longrightarrow>
   ASTChineseExtractor_cleanChineseText p = [p] \<and> ASTChineseExtractor_isValidChineseText p"
  using cleaned_is_pure [of p "text"] clean_pure_id [of p] pure_valid [of p] by blast

text \<open>
  The text U+4F60 U+597D, a full-width comma, U+4E16 U+754C is cleaned to two phrases;
  the first of them is a fixed point.
\<close>

theorem clean_fixed_point_on_cleaned_witness:
  "[0x4F60, 0x597D] \<in> set (ASTChineseExtractor_cleanChineseText
       [0x4F60, 0x597D, 0xFF0C, 0x4E16, 0x754C]) \<and>
   ASTChineseExtractor_cleanChineseText [0x4F60, 0x597D] = [[0x4F60, 0x597D]] \<and>
   ASTChineseExtractor_isValidChineseText [0x4F60, 0x597D]"
proof -
  have cleaned: "[0x4F60, 0x597D] \<in> set (ASTChineseExtractor_cleanChineseText
       [0x4F60, 0x597D, 0xFF0C, 0x4E16, 0x754C])"
    by (simp add: clean_defs string_defs class_defs)
  from cleaned clean_fixed_point_on_cleaned [OF cleaned] show ?thesis by simp
qed

section \<open>The mapping generator covers every phrase and never throws\<close>

text \<open>
  Claim C7. For every list of phrases (strings with at least one ideograph, as the
  extractors deliver them), whatever the translation service does and whatever the
  options are, \<^verbatim>\<open>generateMapping\<close> returns a mapping and no exception leaves it. The keys
  of the mapping are exactly the phrases, each once, so a list of N different phrases
  gives N keys. A phrase whose batch translation is missing, or every phrase when the
  batch call fails, gets the entry of the built-in dictionary if there is one and the
  placeholder otherwise; without translation every phrase gets the pending marker.
\<close>

theorem generateMapping_covers_phrases:
  assumes phrases: "\<forall>p\<in>set texts. containsChinese p"
  shows "\<exists>mapping.
     generateMapping toLowerCase batchTranslate texts translatorService shouldTranslate
       = Inr mapping \<and>
     distinct (map fst mapping) \<and> set (map fst mapping) = set texts \<and>
     (distinct texts \<longrightarrow> length mapping = length texts) \<and>
     (\<forall>p\<in>set texts.
        translateText toLowerCase p =
          JString (case map_of dictionary p of Some v \<Rightarrow> v
                   | None \<Rightarrow> generatePlaceholder toLowerCase p) \<and>
        map_of mapping p = Some
          (if \<not> shouldTranslate then JString (ascii ''to do translate'')
           else case batchTranslate (selectTranslator translatorService) texts of
               Inr apiTranslations \<Rightarrow>
                 if truthy (apiTranslations p) then apiTranslations p
                 else translateText toLowerCase p
             | Inl error \<Rightarrow> translateText toLowerCase p))"
proof -
  have np: "ascii ''__proto__'' \<notin> set texts"
    using phrases proto_not_chinese by blast
  have tt: "\<forall>p\<in>set texts. translateText toLowerCase p =
      JString (case map_of dictionary p of Some v \<Rightarrow> v | None \<Rightarrow> generatePlaceholder toLowerCase p)"
    using phrases translateText_phrase by blast
  show ?thesis
  proof (cases shouldTranslate)
    case False
    with mapping_loop [OF np, of "\<lambda>t. JString (ascii ''to do translate'')"] tt
    show ?thesis by (simp add: generateMapping_def)
  next
    case True
    show ?thesis
    proof (cases "batchTranslate (selectTranslator translatorService) texts")
      case (Inl error)
      with True mapping_loop [OF np, of "translateText toLowerCase"] tt
      show ?thesis by (simp add: generateMapping_def)
    next
      case (Inr api)
      with True
        mapping_loop [OF np, of "\<lambda>t. if truthy (api t) then api t else translateText toLowerCase t"]
        tt
      show ?thesis by (simp add: generateMapping_def Let_def setProperty_if)
    qed
  qed
qed

text \<open>
  Two phrases, U+5220 U+9664 (in the dictionary) and U+4F60 U+597D (not in it), with a
  service that fails for the whole batch, and the lower case of the ASCII letters for
  \<^verbatim>\<open>toLowerCase\<close>.
\<close>

theorem generateMapping_covers_phrases_witness:
  "containsChinese [0x5220, 0x9664] \<and> containsChinese [0x4F60, 0x597D] \<and>
   generateMapping (map (\<lambda>c. if 0x41 \<le> c \<and> c \<le> 0x5A then c + 0x20 else c))
     (\<lambda>translationManager texts. Inl TranslationFailed)
     [[0x5220, 0x9664], [0x4F60, 0x597D]] (ascii ''baidu'') True =
     Inr [([0x5220, 0x9664], JString (ascii ''Delete'')),
          ([0x4F60, 0x597D], JString (ascii ''translate_xx''))] \<and>
   (\<exists>mapping.
     generateMapping (map (\<lambda>c. if 0x41 \<le> c \<and> c \<le> 0x5A then c + 0x20 else c))
       (\<lambda>translationManager texts. Inl TranslationFailed)
       [[0x5220, 0x9664], [0x4F60, 0x597D]] (ascii ''baidu'') True = Inr mapping \<and>
     distinct (map fst mapping) \<and>
     set (map fst mapping) = set [[0x5220, 0x9664], [0x4F60, 0x597D]])"
proof -
  have phrases: "\<forall>p\<in>set [[0x5220, 0x9664], [0x4F60, 0x597D]]. containsChinese p"
    by (simp add: containsChinese_def isChinese_def)
  have run: "generateMapping (map (\<lambda>c. if 0x41 \<le> c \<and> c \<le> 0x5A then c + 0x20 else c))
     (\<lambda>translationManager texts. Inl TranslationFailed)
     [[0x5220, 0x9664], [0x4F60, 0x597D]] (ascii ''baidu'') True =
     Inr [([0x5220, 0x9664], JString (ascii ''Delete'')),
          ([0x4F60, 0x597D], JString (ascii ''translate_xx''))]"
    by (simp add: mapping_defs isChinese_def isSpace_def)
  from generateMapping_covers_phrases [OF phrases,
      of "map (\<lambda>c. if 0x41 \<le> c \<and> c \<le> 0x5A then c + 0x20 else c)"
         "\<lambda>translationManager texts. Inl TranslationFailed" "ascii ''baidu''" True]
  have "\<exists>mapping.
     generateMapping (map (\<lambda>c. if 0x41 \<le> c \<and> c \<le> 0x5A then c + 0x20 else c))
       (\<lambda>translationManager texts. Inl TranslationFailed)
       [[0x5220, 0x9664], [0x4F60, 0x597D]] (ascii ''baidu'') True = Inr mapping \<and>
     distinct (map fst mapping) \<and>
     set (map fst mapping) = set [[0x5220, 0x9664], [0x4F60, 0x597D]]"
    by blast
  with phrases run show ?thesis by simp
qed

section \<open>The cleaner returns the empty list for unusable input\<close>

text \<open>
  Claim C8. Both copies of \<^verbatim>\<open>cleanChineseText\<close> are total functions from strings to
  lists of strings: no step of them can raise on a string. They return the empty list
  for the empty string, and for every string that has no ideograph left once the
  symbols are replaced by spaces and the punctuation at both ends is removed.
\<close>

theorem clean_empty_for_unusable:
  "ASTChineseExtractor_cleanChineseText [] = [] \<and> cleanChineseText [] = [] \<and>
   (\<not> containsChinese (trimPunctuation (stripSymbols text)) \<longrightarrow>
      ASTChineseExtractor_cleanChineseText text = [] \<and> cleanChineseText text = [])"
  by (simp add: ASTChineseExtractor_cleanChineseText_def cleanChineseText_def Let_def)

text \<open>A check mark, a space, the letters OK and a full-width exclamation mark.\<close>

theorem clean_empty_for_unusable_witness:
  "\<not> containsChinese (trimPunctuation (stripSymbols [0x2705, 0x20, 0x4F, 0x4B, 0xFF01])) \<and>
   ASTChineseExtractor_cleanChineseText [0x2705, 0x20, 0x4F, 0x4B, 0xFF01] = [] \<and>
   cleanChineseText [0x2705, 0x20, 0x4F, 0x4B, 0xFF01] = []"
proof -
  have unusable:
    "\<not> containsChinese (trimPunctuation (stripSymbols [0x2705, 0x20, 0x4F, 0x4B, 0xFF01]))"
    by (simp add: containsChinese_def trimPunctuation_def stripSymbols_def stripTrailing_def
        stripLeading_def replaceClass_def class_defs)
  show ?thesis
    using unusable clean_empty_for_unusable [of "[0x2705, 0x20, 0x4F, 0x4B, 0xFF01]"] by blast
qed

section \<open>One file does not influence the next\<close>

text \<open>
  Claim C9. What \<^verbatim>\<open>extractFromFile\<close> returns for a file does not depend on what the
  same object extracted before: whatever the object holds, and whether the earlier file
  was read, parsed and walked or failed, the result for the second file is the result
  that the object gives for it without the earlier call. The set of texts is emptied
  before each walk, and no walk changes the options. (The extractor over ts-morph keeps
  nothing between two calls: it is a function of the tree alone.)
\<close>

theorem extraction_independent_of_earlier_file:
  "snd (extractFromFile (fst (extractFromFile this fileA)) fileB) = snd (extractFromFile this fileB)"
proof -
  have "options (fst (extractFromFile this fileA)) = options this"
    by (cases fileA) (simp_all add: extractFromFile_def Let_def visitNode_options)
  then have "(fst (extractFromFile this fileA))\<lparr>chineseTexts := []\<rparr> = this\<lparr>chineseTexts := []\<rparr>"
    by (cases "fst (extractFromFile this fileA)", cases this) simp
  then show ?thesis by (cases fileB) (simp_all add: extractFromFile_def Let_def)
qed

section \<open>The first step of the pattern-based extractor takes assignments of every kind\<close>




end
